(* ===== verification/Prelude.thy ===== *)
theory Prelude
  imports Complex_Main
begin

text \<open>
  Shared vocabulary of the development: the JavaScript built-ins the service calls
  (\<open>splice\<close>, \<open>String.prototype.toLowerCase\<close>; \<open>findIndex\<close> is the loop of theory Scan),
  the error-accumulating combinator through which a schema collects every issue
  of an input, and the lemma collections the component theories extend.
\<close>

named_theorems handler_simps "equations that evaluate the request handlers"
named_theorems schema_simps "equations that evaluate the field parsers of the schema"

section \<open>Arrays: first match and splice\<close>

text \<open>
  \<open>find_idx p xs\<close> is the position of the first element satisfying \<open>p\<close>, by
  recursion on the list: the reference for the \<open>findIndex\<close> loop of theory Scan.
\<close>

fun find_idx :: "('a \<Rightarrow> bool) \<Rightarrow> 'a list \<Rightarrow> nat option" where
  "find_idx p [] = None"
| "find_idx p (x # xs) = (if p x then Some 0 else map_option Suc (find_idx p xs))"

text \<open>\<open>xs.splice(i, 1)\<close> for an index inside the array: the element at \<open>i\<close> is removed.\<close>

definition splice_one :: "'a list \<Rightarrow> nat \<Rightarrow> 'a list" where
  "splice_one xs i = take i xs @ drop (Suc i) xs"

text \<open>An array of records with a key field, read as the map from key to the first record
  with that key.\<close>

abbreviation keyed :: "('a \<Rightarrow> 'k) \<Rightarrow> 'a list \<Rightarrow> 'k \<rightharpoonup> 'a" where
  "keyed f xs \<equiv> map_of (map (\<lambda>x. (f x, x)) xs)"

section \<open>Strings: ASCII lower case\<close>

text \<open>
  \<open>toLowerCase\<close> on the characters the model has (bytes): \<open>A\<close>..\<open>Z\<close> are mapped
  to \<open>a\<close>..\<open>z\<close>, every other character is kept.
\<close>

definition upper_letters :: string where
  "upper_letters = ''ABCDEFGHIJKLMNOPQRSTUVWXYZ''"

definition lower_letters :: string where
  "lower_letters = ''abcdefghijklmnopqrstuvwxyz''"

definition lower_char :: "char \<Rightarrow> char" where
  "lower_char c = (case map_of (zip upper_letters lower_letters) c of Some d \<Rightarrow> d | None \<Rightarrow> c)"

definition js_lower :: "string \<Rightarrow> string" where
  "js_lower s = map lower_char s"

section \<open>Collecting every issue\<close>

text \<open>
  A field parser answers \<open>Inr v\<close> or \<open>Inl issues\<close>. \<open>vap\<close> applies a parsed
  constructor to one more parsed field and keeps the issues of both sides, in order:
  the schema does not stop at the first invalid field.
\<close>

fun vap :: "('e list + ('a \<Rightarrow> 'b)) \<Rightarrow> ('e list + 'a) \<Rightarrow> ('e list + 'b)" where
  "vap (Inr f) (Inr x) = Inr (f x)"
| "vap (Inr f) (Inl e) = Inl e"
| "vap (Inl e) (Inr x) = Inl e"
| "vap (Inl e1) (Inl e2) = Inl (e1 @ e2)"

fun errs :: "('e list + 'a) \<Rightarrow> 'e list" where
  "errs (Inl e) = e"
| "errs (Inr _) = []"

text \<open>A result is proper when a failure carries at least one issue.\<close>

fun proper :: "('e list + 'a) \<Rightarrow> bool" where
  "proper (Inl e) = (e \<noteq> [])"
| "proper (Inr _) = True"

section \<open>Lemmas\<close>

subsection \<open>find_idx\<close>

lemma find_idx_None_iff: "find_idx p xs = None \<longleftrightarrow> (\<forall>x\<in>set xs. \<not> p x)"
  by (induction xs) auto

lemma find_idx_SomeD:
  "find_idx p xs = Some i \<Longrightarrow> i < length xs \<and> p (xs ! i) \<and> (\<forall>j<i. \<not> p (xs ! j))"
proof (induction xs arbitrary: i)
  case Nil
  then show ?case by simp
next
  case (Cons x xs)
  show ?case
  proof (cases "p x")
    case True
    with Cons.prems show ?thesis by simp
  next
    case False
    with Cons.prems obtain k where k: "find_idx p xs = Some k" and i: "i = Suc k"
      by auto
    from Cons.IH [OF k] False i show ?thesis
      by (auto simp: less_Suc_eq_0_disj)
  qed
qed

lemma find_idx_Some_iff:
  "find_idx p xs = Some i \<longleftrightarrow> i < length xs \<and> p (xs ! i) \<and> (\<forall>j<i. \<not> p (xs ! j))"
proof
  assume "find_idx p xs = Some i"
  then show "i < length xs \<and> p (xs ! i) \<and> (\<forall>j<i. \<not> p (xs ! j))"
    by (rule find_idx_SomeD)
next
  assume a: "i < length xs \<and> p (xs ! i) \<and> (\<forall>j<i. \<not> p (xs ! j))"
  then show "find_idx p xs = Some i"
  proof (induction xs arbitrary: i)
    case Nil
    then show ?case by simp
  next
    case (Cons x xs)
    show ?case
    proof (cases i)
      case 0
      with Cons.prems show ?thesis by simp
    next
      case (Suc k)
      with Cons.prems have "\<not> p x" by auto
      moreover from Cons.prems Suc have "find_idx p xs = Some k"
        by (intro Cons.IH) auto
      ultimately show ?thesis using Suc by simp
    qed
  qed
qed

lemma find_conv_find_idx:
  "find p xs = (case find_idx p xs of None \<Rightarrow> None | Some i \<Rightarrow> Some (xs ! i))"
proof (induction xs)
  case Nil
  then show ?case by simp
next
  case (Cons x xs)
  then show ?case by (cases "find_idx p xs") simp_all
qed

text \<open>With distinct keys, the first element with the key of \<open>x\<close> is \<open>x\<close> itself.\<close>

lemma find_idx_distinct_key:
  assumes "distinct (map f xs)" and "i < length xs"
  shows "find_idx (\<lambda>y. f y = f (xs ! i)) xs = Some i"
proof -
  have "\<forall>j<i. f (xs ! j) \<noteq> f (xs ! i)"
    using assms by (auto simp: distinct_conv_nth)
  with assms(2) show ?thesis by (simp add: find_idx_Some_iff)
qed

lemma find_distinct_key:
  assumes "distinct (map f xs)" and "x \<in> set xs"
  shows "find (\<lambda>y. f y = f x) xs = Some x"
proof -
  from assms(2) obtain i where i: "i < length xs" "xs ! i = x"
    by (auto simp: in_set_conv_nth)
  with find_idx_distinct_key [OF assms(1) i(1)] show ?thesis
    by (simp add: find_conv_find_idx)
qed

subsection \<open>splice_one\<close>

lemma length_splice_one [simp]: "i < length xs \<Longrightarrow> length (splice_one xs i) = length xs - 1"
  by (simp add: splice_one_def)

lemma splice_one_conv_remove_nth: "i < length xs \<Longrightarrow> xs = take i xs @ xs ! i # drop (Suc i) xs"
  by (simp add: id_take_nth_drop)

lemma set_splice_one_distinct:
  assumes "distinct xs" and "i < length xs"
  shows "set (splice_one xs i) = set xs - {xs ! i}"
proof -
  have xs: "xs = take i xs @ xs ! i # drop (Suc i) xs"
    using assms(2) by (rule splice_one_conv_remove_nth)
  from assms(1) have "distinct (take i xs @ xs ! i # drop (Suc i) xs)"
    by (subst (asm) xs)
  then show ?thesis
    by (subst (2) xs) (auto simp: splice_one_def)
qed

lemma map_splice_one: "map f (splice_one xs i) = splice_one (map f xs) i"
  by (simp add: splice_one_def take_map drop_map)

lemma distinct_splice_one: "distinct xs \<Longrightarrow> distinct (splice_one xs i)"
  by (simp add: splice_one_def set_take_disj_set_drop_if_distinct)

lemma find_idx_append_Cons:
  "\<not> list_ex p xs \<Longrightarrow> p y \<Longrightarrow> find_idx p (xs @ y # ys) = Some (length xs)"
  by (induction xs) auto

lemma set_splice_one_subset: "set (splice_one xs k) \<subseteq> set xs"
  by (auto simp: splice_one_def dest: in_set_takeD in_set_dropD)

lemma splice_one_append_Cons: "splice_one (xs @ y # ys) (length xs) = xs @ ys"
  by (simp add: splice_one_def)

lemma list_all_update: "list_all P xs \<Longrightarrow> P y \<Longrightarrow> list_all P (xs[k := y])"
  by (auto simp: list_all_iff dest: subsetD [OF set_update_subset_insert])

subsection \<open>Keyed arrays as maps\<close>

lemma find_keyed: "find (\<lambda>x. f x = i) xs = keyed f xs i"
  by (induction xs) auto

lemma keyed_append_fresh:
  "f y \<notin> f ` set xs \<Longrightarrow> keyed f (xs @ [y]) = (keyed f xs)(f y \<mapsto> y)"
proof (induction xs)
  case Nil
  then show ?case by simp
next
  case (Cons x xs)
  then show ?case by (auto simp: fun_eq_iff)
qed

lemma keyed_update:
  "distinct (map f xs) \<Longrightarrow> k < length xs \<Longrightarrow> f y = f (xs ! k) \<Longrightarrow>
     keyed f (xs[k := y]) = (keyed f xs)(f y \<mapsto> y)"
proof (induction xs arbitrary: k)
  case Nil
  then show ?case by simp
next
  case (Cons x xs)
  show ?case
  proof (cases k)
    case 0
    with Cons.prems show ?thesis by (auto simp: fun_eq_iff)
  next
    case (Suc j)
    with Cons.prems have "xs ! j \<in> set xs" by simp
    moreover from Cons.prems(1) have "f x \<notin> f ` set xs" by simp
    ultimately have "f (xs ! j) \<noteq> f x" by (metis imageI)
    with Cons.prems Suc have ne: "f y \<noteq> f x" by simp
    from Cons.prems Suc have "keyed f (xs[j := y]) = (keyed f xs)(f y \<mapsto> y)"
      by (intro Cons.IH) auto
    with ne Suc show ?thesis by (auto simp: fun_eq_iff)
  qed
qed

lemma keyed_splice_one:
  "distinct (map f xs) \<Longrightarrow> k < length xs \<Longrightarrow>
     keyed f (splice_one xs k) = (keyed f xs)(f (xs ! k) := None)"
proof (induction xs arbitrary: k)
  case Nil
  then show ?case by simp
next
  case (Cons x xs)
  show ?case
  proof (cases k)
    case 0
    with Cons.prems show ?thesis
      by (auto simp: fun_eq_iff splice_one_def map_of_eq_None_iff image_iff)
  next
    case (Suc j)
    with Cons.prems have "xs ! j \<in> set xs" by simp
    moreover from Cons.prems(1) have "f x \<notin> f ` set xs" by simp
    ultimately have ne: "f (xs ! j) \<noteq> f x" by (metis imageI)
    from Cons.prems Suc have "keyed f (splice_one xs j) = (keyed f xs)(f (xs ! j) := None)"
      by (intro Cons.IH) auto
    with ne Suc show ?thesis by (auto simp: fun_eq_iff splice_one_def)
  qed
qed

lemma keyed_None_iff: "keyed f xs i = None \<longleftrightarrow> i \<notin> f ` set xs"
  by (auto simp: map_of_eq_None_iff image_iff)

subsection \<open>js_lower\<close>

lemma lower_letters_not_upper: "d \<in> set lower_letters \<Longrightarrow> d \<notin> set upper_letters"
  by (auto simp: lower_letters_def upper_letters_def)

lemma lower_char_idem [simp]: "lower_char (lower_char c) = lower_char c"
proof (cases "map_of (zip upper_letters lower_letters) c")
  case None
  then show ?thesis by (simp add: lower_char_def)
next
  case (Some d)
  then have "(c, d) \<in> set (zip upper_letters lower_letters)" by (rule map_of_SomeD)
  then have "d \<in> set lower_letters" by (rule set_zip_rightD)
  then have "d \<notin> set upper_letters" by (rule lower_letters_not_upper)
  then have "map_of (zip upper_letters lower_letters) d = None"
    by (auto simp: map_of_eq_None_iff dest: set_zip_leftD)
  with Some show ?thesis by (simp add: lower_char_def)
qed

lemmas js_lower_simps = js_lower_def lower_char_def upper_letters_def lower_letters_def

lemma js_lower_idem [simp]: "js_lower (js_lower s) = js_lower s"
  by (simp add: js_lower_def)

lemma length_js_lower [simp]: "length (js_lower s) = length s"
  by (simp add: js_lower_def)

subsection \<open>vap and errs\<close>

lemma vap_Inr_iff: "vap f x = Inr y \<longleftrightarrow> (\<exists>g a. f = Inr g \<and> x = Inr a \<and> y = g a)"
  by (cases f; cases x) auto

lemma vap_InrE:
  assumes "vap f x = Inr y"
  obtains g a where "f = Inr g" and "x = Inr a" and "y = g a"
  using assms by (cases f; cases x) auto

lemma errs_vap [simp]: "errs (vap f x) = errs f @ errs x"
  by (cases f; cases x) auto

lemma proper_vap [intro]: "proper f \<Longrightarrow> proper x \<Longrightarrow> proper (vap f x)"
  by (cases f; cases x) auto

lemma proper_ok_iff: "proper r \<Longrightarrow> (errs r = []) \<longleftrightarrow> (\<exists>v. r = Inr v)"
  by (cases r) auto

end
