(* ===== verification/Json.thy ===== *)
theory Json
  imports Prelude
begin

text \<open>
  JSON values as the request bodies arrive in the handlers (after \<open>express.json()\<close>
  has run \<open>JSON.parse\<close>) and as \<open>res.json\<close> sends them back. Numbers are the
  finite values \<open>JSON.parse\<close> produces, written as rationals. An object is its
  list of members in source order; reading a property takes the last member with that
  name, as \<open>JSON.parse\<close> keeps the last of duplicate keys. An absent property
  reads as JavaScript's \<open>undefined\<close>, here \<open>None\<close>.
\<close>

datatype json =
    JNull
  | JBool bool
  | JNum rat
  | JStr string
  | JArr "json list"
  | JObj "(string \<times> json) list"

definition jget :: "(string \<times> json) list \<Rightarrow> string \<Rightarrow> json option" where
  "jget kvs k = map_of (rev kvs) k"

text \<open>The type name zod's \<open>getParsedType\<close> reports for a value (\<open>None\<close> is \<open>undefined\<close>).\<close>

fun jtype :: "json option \<Rightarrow> string" where
  "jtype None = ''undefined''"
| "jtype (Some JNull) = ''null''"
| "jtype (Some (JBool _)) = ''boolean''"
| "jtype (Some (JNum _)) = ''number''"
| "jtype (Some (JStr _)) = ''string''"
| "jtype (Some (JArr _)) = ''array''"
| "jtype (Some (JObj _)) = ''object''"

text \<open>\<open>Number.isInteger\<close> on a finite number.\<close>

definition js_is_integer :: "rat \<Rightarrow> bool" where
  "js_is_integer x \<longleftrightarrow> of_int \<lfloor>x\<rfloor> = x"

lemma jget_Nil [simp]: "jget [] k = None"
  by (simp add: jget_def)

lemma jget_Cons [simp]:
  "jget ((a, v) # kvs) k = (case jget kvs k of None \<Rightarrow> (if a = k then Some v else None) | Some w \<Rightarrow> Some w)"
  by (simp add: jget_def map_of_append map_add_def split: option.splits)

lemma jget_Some_in_set: "jget kvs k = Some v \<Longrightarrow> (k, v) \<in> set kvs"
  by (auto simp: jget_def dest: map_of_SomeD)

lemma js_is_integer_int [simp]: "js_is_integer (of_int i)"
  by (simp add: js_is_integer_def)

lemma js_is_integer_numeral [simp]: "js_is_integer (numeral n)"
  by (simp add: js_is_integer_def)

lemma js_is_integer_zero [simp]: "js_is_integer 0"
  by (simp add: js_is_integer_def)

end
