(* ===== verification/Url.thy ===== *)
theory Url
  imports Prelude
begin

text \<open>
  zod's \<open>z.string().url()\<close> accepts a string exactly when \<open>new URL(s)\<close> does not throw.
  The WHATWG URL parser is not code of this repository; \<open>whatwg_url_ok\<close> is the part
  of it that decides acceptance for an absolute URL without a base: after trimming
  leading and trailing C0 controls and spaces and removing tabs and newlines, the string
  must start with a scheme (an ASCII letter, then letters, digits, \<open>+\<close>, \<open>-\<close>, \<open>.\<close>)
  followed by a colon; for the special schemes other than \<open>file\<close> the authority after
  the slashes must name a non-empty host without forbidden code points, with an optional
  decimal port of at most 65535. Any other scheme is accepted with whatever follows
  (\<open>mailto:x\<close> is a URL). Host syntax beyond the forbidden code points (IPv6 literals,
  IDNA, percent-decoding) is not modelled. The theory also holds \<open>decodeURIComponent\<close>,
  which Express applies to route parameters, and the lemmas that it leaves a string
  without escapes alone and undoes the escaping of every byte of an ASCII string.
\<close>

definition is_ascii_alpha :: "char \<Rightarrow> bool" where
  "is_ascii_alpha c =
     (let n = (of_char c :: nat) in (65 \<le> n \<and> n \<le> 90) \<or> (97 \<le> n \<and> n \<le> 122))"

definition is_ascii_digit :: "char \<Rightarrow> bool" where
  "is_ascii_digit c = (let n = (of_char c :: nat) in 48 \<le> n \<and> n \<le> 57)"

definition scheme_char :: "char \<Rightarrow> bool" where
  "scheme_char c = (is_ascii_alpha c \<or> is_ascii_digit c \<or> c \<in> set ''+-.'')"

definition c0_or_space :: "char \<Rightarrow> bool" where
  "c0_or_space c = ((of_char c :: nat) \<le> 32)"

definition tab_or_newline :: "char \<Rightarrow> bool" where
  "tab_or_newline c = (c \<in> {CHR 0x09, CHR 0x0A, CHR 0x0D})"

definition url_trim :: "string \<Rightarrow> string" where
  "url_trim s =
     filter (\<lambda>c. \<not> tab_or_newline c) (rev (dropWhile c0_or_space (rev (dropWhile c0_or_space s))))"

definition special_scheme :: "string \<Rightarrow> bool" where
  "special_scheme s = (s \<in> set [''http'', ''https'', ''ws'', ''wss'', ''ftp''])"

definition forbidden_host_char :: "char \<Rightarrow> bool" where
  "forbidden_host_char c =
     (c0_or_space c \<or> c \<in> set ''#%/:<>?@[]^|'' \<or> c = CHR 0x5C \<or> (of_char c :: nat) = 127)"

fun digits_value :: "string \<Rightarrow> nat" where
  "digits_value [] = 0"
| "digits_value (c # cs) = (of_char c - 48) * 10 ^ length cs + digits_value cs"

definition port_ok :: "string \<Rightarrow> bool" where
  "port_ok p = (list_all is_ascii_digit p \<and> digits_value p \<le> 65535)"

text \<open>The authority of a special URL: after the slashes, up to the path, query or fragment;
  the host follows the last \<open>@\<close> and ends at the port's colon.\<close>

definition authority_ok :: "string \<Rightarrow> bool" where
  "authority_ok rest =
     (let a = takeWhile (\<lambda>c. c \<notin> set ''/?#'' \<and> c \<noteq> CHR 0x5C)
                 (dropWhile (\<lambda>c. c = CHR ''/'' \<or> c = CHR 0x5C) rest);
          hp = rev (takeWhile (\<lambda>c. c \<noteq> CHR ''@'') (rev a));
          host = takeWhile (\<lambda>c. c \<noteq> CHR '':'') hp;
          port = drop (Suc (length host)) hp
      in host \<noteq> [] \<and> \<not> list_ex forbidden_host_char host \<and> port_ok port)"

definition whatwg_url_ok :: "string \<Rightarrow> bool" where
  "whatwg_url_ok s =
     (let t = url_trim s;
          sch = takeWhile (\<lambda>c. c \<noteq> CHR '':'') t;
          rest = drop (Suc (length sch)) t
      in length sch < length t \<and> sch \<noteq> [] \<and> is_ascii_alpha (hd sch) \<and> list_all scheme_char sch \<and>
         (if special_scheme (js_lower sch) then authority_ok rest else True))"

section \<open>decodeURIComponent\<close>

text \<open>
  Express decodes a route parameter with \<open>decodeURIComponent\<close>, the ECMAScript
  operation Decode with an empty reserved set: a \<open>%\<close> must be followed by two hex
  digits; an escaped byte below 0x80 stands for that character; a byte with n leading one
  bits (n = 2, 3, 4) starts n escaped bytes, the others continuation bytes (10xxxxxx),
  which must be the well-formed UTF-8 encoding of one code point (Unicode table 3-7: no
  overlong forms, no surrogates, nothing above U+10FFFF); anything else throws a
  \<open>URIError\<close>, here \<open>None\<close>. Strings are byte strings (a JavaScript string read as
  its UTF-8 encoding), so a decoded code point is kept as its bytes.
\<close>

definition hex_val :: "char \<Rightarrow> nat option" where
  "hex_val c =
     (let n = (of_char c :: nat) in
      if 48 \<le> n \<and> n \<le> 57 then Some (n - 48)
      else if 65 \<le> n \<and> n \<le> 70 then Some (n - 55)
      else if 97 \<le> n \<and> n \<le> 102 then Some (n - 87)
      else None)"

definition escape_byte :: "string \<Rightarrow> nat option" where
  "escape_byte s =
     (case s of
        c # h # l # _ \<Rightarrow>
          if c = CHR ''%'' then
            (case hex_val h of Some a \<Rightarrow> map_option (\<lambda>b. 16 * a + b) (hex_val l) | None \<Rightarrow> None)
          else None
      | _ \<Rightarrow> None)"

definition utf8_len :: "nat \<Rightarrow> nat" where
  "utf8_len b =
     (if b < 192 then 0 else if b < 224 then 2 else if b < 240 then 3 else if b < 248 then 4 else 0)"

fun cont_bytes :: "nat \<Rightarrow> string \<Rightarrow> nat list option" where
  "cont_bytes 0 s = Some []"
| "cont_bytes (Suc n) s =
     (case escape_byte s of
        Some b \<Rightarrow> if 128 \<le> b \<and> b < 192 then map_option ((#) b) (cont_bytes n (drop 3 s)) else None
      | None \<Rightarrow> None)"

fun utf8_ok :: "nat list \<Rightarrow> bool" where
  "utf8_ok [b1, b2] = (194 \<le> b1)"
| "utf8_ok [b1, b2, b3] = (if b1 = 224 then 160 \<le> b2 else if b1 = 237 then b2 < 160 else True)"
| "utf8_ok [b1, b2, b3, b4] =
     (if b1 = 240 then 144 \<le> b2 else if b1 = 244 then b2 < 144 else b1 < 244)"
| "utf8_ok _ = False"

fun decode_uri_component :: "string \<Rightarrow> string option" where
  "decode_uri_component [] = Some []"
| "decode_uri_component (c # s) =
     (if c \<noteq> CHR ''%'' then map_option ((#) c) (decode_uri_component s)
      else
        (case escape_byte (c # s) of
           None \<Rightarrow> None
         | Some b \<Rightarrow>
             if b < 128 then map_option ((#) (char_of b)) (decode_uri_component (drop 2 s))
             else if utf8_len b = 0 then None
             else
               (case cont_bytes (utf8_len b - 1) (drop 2 s) of
                  None \<Rightarrow> None
                | Some bs \<Rightarrow>
                    if utf8_ok (b # bs)
                    then map_option ((@) (map char_of (b # bs)))
                           (decode_uri_component (drop (2 + 3 * (utf8_len b - 1)) s))
                    else None)))"

text \<open>What a client sends when it escapes every byte of a path segment, as
  \<open>%\<close> and two upper-case hex digits.\<close>

definition hex_digit :: "nat \<Rightarrow> char" where
  "hex_digit n = (if n < 10 then char_of (48 + n) else char_of (55 + n))"

fun pct_encode :: "string \<Rightarrow> string" where
  "pct_encode [] = []"
| "pct_encode (c # s) =
     CHR ''%'' # hex_digit (of_char c div 16) # hex_digit (of_char c mod 16) # pct_encode s"

lemmas whatwg_url_simps = whatwg_url_ok_def url_trim_def c0_or_space_def tab_or_newline_def
  scheme_char_def is_ascii_alpha_def is_ascii_digit_def special_scheme_def js_lower_simps
  authority_ok_def forbidden_host_char_def port_ok_def

lemma whatwg_url_ok_examples:
  "whatwg_url_ok ''https://example.com/p.jpg''"
  "whatwg_url_ok ''mailto:someone''"
  "\<not> whatwg_url_ok ''/posters/p.jpg''"
  "\<not> whatwg_url_ok ''https://''"
  by (simp_all add: whatwg_url_simps)

section \<open>Lemmas on decodeURIComponent\<close>

lemma decode_no_pct: "CHR ''%'' \<notin> set s \<Longrightarrow> decode_uri_component s = Some s"
  by (induction s) auto

lemma hex_val_hex_digit: "n < 16 \<Longrightarrow> hex_val (hex_digit n) = Some n"
proof -
  assume "n < 16"
  then consider "n < 10" | "10 \<le> n" "n < 16" by linarith
  then show ?thesis
  proof cases
    case 1
    then show ?thesis by (simp add: hex_digit_def hex_val_def Let_def)
  next
    case 2
    then show ?thesis by (simp add: hex_digit_def hex_val_def Let_def)
  qed
qed

lemma escape_byte_pct_encode:
  "escape_byte (pct_encode (c # s)) = Some (of_char c)"
proof -
  have "(of_char c :: nat) < 256" by (metis of_char_mod_256 mod_less_divisor zero_less_numeral)
  then have "(of_char c :: nat) div 16 < 16" and "(of_char c :: nat) mod 16 < 16"
    by (simp_all add: less_mult_imp_div_less)
  then show ?thesis by (simp add: escape_byte_def hex_val_hex_digit)
qed

lemma decode_pct_encode:
  "\<forall>c\<in>set s. (of_char c :: nat) < 128 \<Longrightarrow> decode_uri_component (pct_encode s) = Some s"
proof (induction s)
  case Nil
  then show ?case by simp
next
  case (Cons c s)
  then show ?case
    using escape_byte_pct_encode [of c s] by (simp del: pct_encode.simps(2)) (simp)
qed

end
