(* ===== verification/Schema.thy ===== *)
theory Schema
  imports Json Url
begin

text \<open>
  The request-body validator of src/schemas/movies.js: the zod object schema
  \<open>movieSchema\<close>, \<open>validateMovie\<close> (\<open>movieSchema.safeParse\<close>) and
  \<open>validatePartial\<close> (\<open>movieSchema.partial().safeParse\<close>). Each field schema is a
  parser from the property's value (\<open>None\<close> when the property is absent) to the
  parsed value or the issues zod reports for it, with zod's codes, paths and messages
  (the custom messages of the source where it gives them). The object schema parses
  every field and keeps the issues of all of them (\<open>vap\<close>); properties it does not
  name are dropped. Whether a string is a URL is the parameter \<open>url_ok\<close>: zod's
  \<open>.url()\<close> asks the platform's \<open>URL\<close> constructor.
\<close>

section \<open>Data\<close>

datatype genre = Action | Adventure | Crime | Comedy | Drama | Fantasy | Horror | Thriller | Sci_Fi

fun genre_name :: "genre \<Rightarrow> string" where
  "genre_name Action = ''Action''"
| "genre_name Adventure = ''Adventure''"
| "genre_name Crime = ''Crime''"
| "genre_name Comedy = ''Comedy''"
| "genre_name Drama = ''Drama''"
| "genre_name Fantasy = ''Fantasy''"
| "genre_name Horror = ''Horror''"
| "genre_name Thriller = ''Thriller''"
| "genre_name Sci_Fi = ''Sci-Fi''"

text \<open>The enumeration's values in the order \<open>z.enum\<close> lists them.\<close>

definition genre_values :: "genre list" where
  "genre_values = [Action, Adventure, Crime, Comedy, Drama, Fantasy, Horror, Thriller, Sci_Fi]"

definition genre_of_string :: "string \<Rightarrow> genre option" where
  "genre_of_string s = find (\<lambda>g. genre_name g = s) genre_values"

text \<open>An issue of a \<open>ZodError\<close>: its code (with the code's own fields), path and message.
  zod writes the issue of each place that raises one as its own object literal, so the
  three places that raise \<open>invalid_type\<close> (a type check, \<open>.int()\<close>, \<open>z.enum\<close>) are
  three constructors: the members they print differ in order.\<close>

datatype path_elem = PKey string | PIdx nat

datatype issue_code =
    Invalid_type string string \<comment> \<open>a type check: expected, received\<close>
  | Not_int \<comment> \<open>\<open>.int()\<close>: code \<open>invalid_type\<close>, expected integer, received float\<close>
  | Enum_type "string list" string \<comment> \<open>\<open>z.enum\<close> on a non-string: code \<open>invalid_type\<close>, options, received\<close>
  | Invalid_enum_value "string list" string \<comment> \<open>options, received\<close>
  | Too_small int bool \<comment> \<open>minimum, inclusive\<close>
  | Too_big int bool \<comment> \<open>maximum, inclusive\<close>
  | Invalid_string string \<comment> \<open>the failed validation, e.g. \<open>url\<close>\<close>

record issue =
  icode :: issue_code
  ipath :: "path_elem list"
  imessage :: string

text \<open>The checks chained on \<open>z.number()\<close>: \<open>.int()\<close>, \<open>.min(b)\<close>, \<open>.max(b)\<close>
  (inclusive) and \<open>.positive()\<close> (a minimum of 0, exclusive).\<close>

datatype num_check = Int_check | Min_check int bool | Max_check int bool

text \<open>The object \<open>result.data\<close> holds when \<open>validateMovie\<close> succeeds.\<close>

record movie_data =
  title :: string
  genre :: "genre list"
  year :: rat
  duration :: rat
  director :: string
  rate :: rat
  poster :: string

text \<open>What \<open>validatePartial\<close> returns: each property present or absent.\<close>

record movie_patch =
  p_title :: "string option"
  p_genre :: "genre list option"
  p_year :: "rat option"
  p_duration :: "rat option"
  p_director :: "string option"
  p_rate :: "rat option"
  p_poster :: "string option"

section \<open>zod's messages\<close>

definition decimal_digits :: string where
  "decimal_digits = ''0123456789''"

fun nat_digits :: "nat \<Rightarrow> string" where
  "nat_digits n =
     (if n < 10 then [decimal_digits ! n]
      else nat_digits (n div 10) @ [decimal_digits ! (n mod 10)])"

definition show_int :: "int \<Rightarrow> string" where
  "show_int i = (if i < 0 then CHR ''-'' # nat_digits (nat (- i)) else nat_digits (nat i))"

definition squote :: "string \<Rightarrow> string" where
  "squote s = CHR 0x27 # s @ [CHR 0x27]"

text \<open>zod's \<open>joinValues\<close>: the quoted options separated by a bar.\<close>

fun join_values :: "string list \<Rightarrow> string" where
  "join_values [] = []"
| "join_values [x] = squote x"
| "join_values (x # y # ys) = squote x @ '' | '' @ join_values (y # ys)"

definition genre_options :: "string list" where
  "genre_options = map genre_name genre_values"

section \<open>Field schemas\<close>

text \<open>
  The issue of a failed type check. A schema built with \<open>required_error\<close> and
  \<open>invalid_type_error\<close> uses the first when the value is \<open>undefined\<close> and the second
  otherwise; without them zod says \<open>Required\<close> or \<open>Expected \<dots>, received \<dots>\<close>.
\<close>

definition type_issue ::
  "string option \<Rightarrow> string option \<Rightarrow> string \<Rightarrow> path_elem list \<Rightarrow> json option \<Rightarrow> issue" where
  "type_issue req_msg inv_msg expected p v =
     \<lparr>icode = Invalid_type expected (jtype v), ipath = p,
      imessage = (if v = None then (case req_msg of Some m \<Rightarrow> m | None \<Rightarrow> ''Required'')
                  else (case inv_msg of Some m \<Rightarrow> m
                        | None \<Rightarrow> ''Expected '' @ expected @ '', received '' @ jtype v))\<rparr>"

text \<open>\<open>z.string({required_error, invalid_type_error})\<close>.\<close>

definition parse_string ::
  "string option \<Rightarrow> string option \<Rightarrow> path_elem list \<Rightarrow> json option \<Rightarrow> issue list + string" where
  "parse_string req_msg inv_msg p v =
     (case v of Some (JStr s) \<Rightarrow> Inr s | _ \<Rightarrow> Inl [type_issue req_msg inv_msg ''string'' p v])"

text \<open>One check of \<open>z.number()\<close>: zod runs every check and reports each that fails.\<close>

fun num_check_issues :: "path_elem list \<Rightarrow> rat \<Rightarrow> num_check \<Rightarrow> issue list" where
  "num_check_issues p x Int_check =
     (if js_is_integer x then []
      else [\<lparr>icode = Not_int, ipath = p,
             imessage = ''Expected integer, received float''\<rparr>])"
| "num_check_issues p x (Min_check b incl) =
     (if (if incl then x < of_int b else x \<le> of_int b)
      then [\<lparr>icode = Too_small b incl, ipath = p,
             imessage = ''Number must be greater than '' @ (if incl then ''or equal to '' else [])
                          @ show_int b\<rparr>]
      else [])"
| "num_check_issues p x (Max_check b incl) =
     (if (if incl then of_int b < x else of_int b \<le> x)
      then [\<lparr>icode = Too_big b incl, ipath = p,
             imessage = ''Number must be less than '' @ (if incl then ''or equal to '' else [])
                          @ show_int b\<rparr>]
      else [])"

definition parse_number :: "num_check list \<Rightarrow> path_elem list \<Rightarrow> json option \<Rightarrow> issue list + rat" where
  "parse_number cs p v =
     (case v of
        Some (JNum x) \<Rightarrow>
          (let is = concat (map (num_check_issues p x) cs) in if is = [] then Inr x else Inl is)
      | _ \<Rightarrow> Inl [type_issue None None ''number'' p v])"

text \<open>An element of \<open>z.enum([...])\<close>: a string among the options.\<close>

definition parse_genre :: "path_elem list \<Rightarrow> json \<Rightarrow> issue list + genre" where
  "parse_genre p v =
     (case v of
        JStr s \<Rightarrow>
          (case genre_of_string s of
             Some g \<Rightarrow> Inr g
           | None \<Rightarrow> Inl [\<lparr>icode = Invalid_enum_value genre_options s, ipath = p,
                            imessage = ''Invalid enum value. Expected '' @ join_values genre_options
                                         @ '', received '' @ squote s\<rparr>])
      | _ \<Rightarrow> Inl [\<lparr>icode = Enum_type genre_options (jtype (Some v)), ipath = p,
                  imessage = ''Expected '' @ join_values genre_options @ '', received ''
                               @ jtype (Some v)\<rparr>])"

text \<open>The elements of \<open>z.array(...)\<close>, each at its index; issues of all elements are kept.\<close>

fun parse_genres :: "path_elem list \<Rightarrow> nat \<Rightarrow> json list \<Rightarrow> issue list + genre list" where
  "parse_genres p i [] = Inr []"
| "parse_genres p i (x # xs) =
     vap (vap (Inr (#)) (parse_genre (p @ [PIdx i]) x)) (parse_genres p (Suc i) xs)"

text \<open>\<open>.default(d)\<close>: an absent value is replaced by \<open>d\<close>, which is then parsed.\<close>

definition with_default :: "json \<Rightarrow> (json option \<Rightarrow> 'e + 'a) \<Rightarrow> json option \<Rightarrow> 'e + 'a" where
  "with_default d f v = (case v of None \<Rightarrow> f (Some d) | Some _ \<Rightarrow> f v)"

text \<open>\<open>.optional()\<close>, which \<open>.partial()\<close> puts around every field: an absent value
  is accepted and stays absent.\<close>

definition optional :: "(json option \<Rightarrow> 'e + 'a) \<Rightarrow> json option \<Rightarrow> 'e + 'a option" where
  "optional f v = (case v of None \<Rightarrow> Inr None | Some _ \<Rightarrow> map_sum id Some (f v))"

section \<open>The fields of movieSchema\<close>

definition parse_title :: "json option \<Rightarrow> issue list + string" where
  "parse_title = parse_string (Some ''Title is required'') (Some ''Title must be a string'') [PKey ''title'']"

definition parse_genre_field :: "json option \<Rightarrow> issue list + genre list" where
  "parse_genre_field v =
     (case v of
        Some (JArr xs) \<Rightarrow> parse_genres [PKey ''genre''] 0 xs
      | _ \<Rightarrow> Inl [type_issue (Some ''Movie genre is required'')
                  (Some ''Movie genre must be an array of enum Genre'') ''array'' [PKey ''genre''] v])"

definition year_checks :: "num_check list" where
  "year_checks = [Int_check, Min_check 1888 True, Max_check 2077 True]"

definition parse_year :: "json option \<Rightarrow> issue list + rat" where
  "parse_year = parse_number year_checks [PKey ''year'']"

definition duration_checks :: "num_check list" where
  "duration_checks = [Int_check, Min_check 0 False]"

definition parse_duration :: "json option \<Rightarrow> issue list + rat" where
  "parse_duration = parse_number duration_checks [PKey ''duration'']"

definition parse_director :: "json option \<Rightarrow> issue list + string" where
  "parse_director = parse_string None None [PKey ''director'']"

definition rate_checks :: "num_check list" where
  "rate_checks = [Min_check 0 True, Max_check 10 True]"

definition parse_rate :: "json option \<Rightarrow> issue list + rat" where
  "parse_rate = with_default (JNum 5) (parse_number rate_checks [PKey ''rate''])"

definition parse_poster :: "(string \<Rightarrow> bool) \<Rightarrow> json option \<Rightarrow> issue list + string" where
  "parse_poster url_ok v =
     (case parse_string None None [PKey ''poster''] v of
        Inl e \<Rightarrow> Inl e
      | Inr s \<Rightarrow>
          if url_ok s then Inr s
          else Inl [\<lparr>icode = Invalid_string ''url'', ipath = [PKey ''poster''],
                     imessage = ''Poster must be a valid URL''\<rparr>])"

section \<open>movieSchema, validateMovie, validatePartial\<close>

text \<open>The issue of \<open>z.object\<close> when the input is not an object.\<close>

definition object_issue :: "json \<Rightarrow> issue" where
  "object_issue v = type_issue None None ''object'' [] (Some v)"

definition movie_schema :: "(string \<Rightarrow> bool) \<Rightarrow> (string \<times> json) list \<Rightarrow> issue list + movie_data" where
  "movie_schema url_ok kvs =
     vap (vap (vap (vap (vap (vap (vap (Inr movie_data.make)
       (parse_title (jget kvs ''title'')))
       (parse_genre_field (jget kvs ''genre'')))
       (parse_year (jget kvs ''year'')))
       (parse_duration (jget kvs ''duration'')))
       (parse_director (jget kvs ''director'')))
       (parse_rate (jget kvs ''rate'')))
       (parse_poster url_ok (jget kvs ''poster''))"

definition validateMovie :: "(string \<Rightarrow> bool) \<Rightarrow> json \<Rightarrow> issue list + movie_data" where
  "validateMovie url_ok v =
     (case v of JObj kvs \<Rightarrow> movie_schema url_ok kvs | _ \<Rightarrow> Inl [object_issue v])"

definition partial_schema :: "(string \<Rightarrow> bool) \<Rightarrow> (string \<times> json) list \<Rightarrow> issue list + movie_patch" where
  "partial_schema url_ok kvs =
     vap (vap (vap (vap (vap (vap (vap (Inr movie_patch.make)
       (optional parse_title (jget kvs ''title'')))
       (optional parse_genre_field (jget kvs ''genre'')))
       (optional parse_year (jget kvs ''year'')))
       (optional parse_duration (jget kvs ''duration'')))
       (optional parse_director (jget kvs ''director'')))
       (optional parse_rate (jget kvs ''rate'')))
       (optional (parse_poster url_ok) (jget kvs ''poster''))"

definition validatePartial :: "(string \<Rightarrow> bool) \<Rightarrow> json \<Rightarrow> issue list + movie_patch" where
  "validatePartial url_ok v =
     (case v of JObj kvs \<Rightarrow> partial_schema url_ok kvs | _ \<Rightarrow> Inl [object_issue v])"


section \<open>The constraints the schema states\<close>

text \<open>
  The schema's constraints on a record, stated directly (\<open>data_wf\<close>) and for the
  properties a partial update carries (\<open>patch_wf\<close>); \<open>num_ok\<close> is what one
  number check accepts. \<open>data_members\<close> is the object \<open>res.json\<close> prints for
  \<open>result.data\<close>, in the schema's key order; \<open>data_patch\<close> is the update that
  sets every property of a record.
\<close>

fun num_ok :: "rat \<Rightarrow> num_check \<Rightarrow> bool" where
  "num_ok x Int_check = js_is_integer x"
| "num_ok x (Min_check b incl) = (if incl then of_int b \<le> x else of_int b < x)"
| "num_ok x (Max_check b incl) = (if incl then x \<le> of_int b else x < of_int b)"

definition data_wf :: "(string \<Rightarrow> bool) \<Rightarrow> 'a movie_data_scheme \<Rightarrow> bool" where
  "data_wf url_ok d \<longleftrightarrow>
     js_is_integer (year d) \<and> 1888 \<le> year d \<and> year d \<le> 2077 \<and>
     js_is_integer (duration d) \<and> 0 < duration d \<and>
     0 \<le> rate d \<and> rate d \<le> 10 \<and> url_ok (poster d)"

definition genre_json :: "genre list \<Rightarrow> json" where
  "genre_json gs = JArr (map (\<lambda>g. JStr (genre_name g)) gs)"

definition data_members :: "'a movie_data_scheme \<Rightarrow> (string \<times> json) list" where
  "data_members d =
     [(''title'', JStr (title d)), (''genre'', genre_json (genre d)), (''year'', JNum (year d)),
      (''duration'', JNum (duration d)), (''director'', JStr (director d)),
      (''rate'', JNum (rate d)), (''poster'', JStr (poster d))]"

definition patch_wf :: "(string \<Rightarrow> bool) \<Rightarrow> movie_patch \<Rightarrow> bool" where
  "patch_wf url_ok p \<longleftrightarrow>
     pred_option (\<lambda>y. js_is_integer y \<and> 1888 \<le> y \<and> y \<le> 2077) (p_year p) \<and>
     pred_option (\<lambda>x. js_is_integer x \<and> 0 < x) (p_duration p) \<and>
     pred_option (\<lambda>r. 0 \<le> r \<and> r \<le> 10) (p_rate p) \<and>
     pred_option url_ok (p_poster p)"

definition data_patch :: "'a movie_data_scheme \<Rightarrow> movie_patch" where
  "data_patch d =
     \<lparr>p_title = Some (title d), p_genre = Some (genre d), p_year = Some (year d),
      p_duration = Some (duration d), p_director = Some (director d), p_rate = Some (rate d),
      p_poster = Some (poster d)\<rparr>"

section \<open>Example inputs\<close>

text \<open>The creation body of the spec's example scenario, the record it validates to, a
  partial update setting only the rate, and a body without title whose year is too small.\<close>

definition dune_members :: "(string \<times> json) list" where
  "dune_members = [(''title'', JStr ''Dune''), (''genre'', JArr [JStr ''Sci-Fi'']),
     (''year'', JNum 2021), (''duration'', JNum 155), (''director'', JStr ''Denis Villeneuve''),
     (''poster'', JStr ''https://example.com/p.jpg'')]"

definition dune_data :: movie_data where
  "dune_data = \<lparr>title = ''Dune'', genre = [Sci_Fi], year = 2021, duration = 155,
     director = ''Denis Villeneuve'', rate = 5, poster = ''https://example.com/p.jpg''\<rparr>"

definition rate_body :: "(string \<times> json) list" where
  "rate_body = [(''rate'', JNum (19 / 2))]"

definition rate_patch :: movie_patch where
  "rate_patch = \<lparr>p_title = None, p_genre = None, p_year = None, p_duration = None,
     p_director = None, p_rate = Some (19 / 2), p_poster = None\<rparr>"

declare parse_title_def [schema_simps] parse_string_def [schema_simps]
  parse_genre_field_def [schema_simps] parse_genre_def [schema_simps]
  genre_of_string_def [schema_simps] genre_values_def [schema_simps]
  parse_year_def [schema_simps] year_checks_def [schema_simps] parse_number_def [schema_simps]
  parse_duration_def [schema_simps] duration_checks_def [schema_simps]
  parse_director_def [schema_simps] parse_rate_def [schema_simps] with_default_def [schema_simps]
  rate_checks_def [schema_simps] parse_poster_def [schema_simps] movie_data.make_def [schema_simps]
  movie_patch.make_def [schema_simps] movie_schema_def [schema_simps]
  partial_schema_def [schema_simps] optional_def [schema_simps] type_issue_def [schema_simps]
  object_issue_def [schema_simps] validateMovie_def [schema_simps] validatePartial_def [schema_simps]
  show_int_def [schema_simps] decimal_digits_def [schema_simps]

section \<open>Lemmas\<close>

subsection \<open>What each field accepts\<close>

lemma genre_of_string_name [simp]: "genre_of_string (genre_name g) = Some g"
  by (cases g) (simp_all add: genre_of_string_def genre_values_def)

lemma genre_of_string_SomeD: "genre_of_string s = Some g \<Longrightarrow> s = genre_name g"
  by (auto simp: genre_of_string_def genre_values_def split: if_splits)

lemma genre_of_string_Some_iff: "genre_of_string s = Some g \<longleftrightarrow> s = genre_name g"
  by (auto dest: genre_of_string_SomeD)

lemma genre_name_inj: "genre_name g = genre_name h \<longleftrightarrow> g = h"
  by (cases g; cases h) simp_all

lemma parse_string_Inr_iff: "parse_string r i p v = Inr s \<longleftrightarrow> v = Some (JStr s)"
  by (auto simp: parse_string_def split: option.splits json.splits)

lemma num_check_issues_Nil_iff: "num_check_issues p x c = [] \<longleftrightarrow> num_ok x c"
  by (cases c) auto

lemma parse_number_Inr_iff:
  "parse_number cs p v = Inr x \<longleftrightarrow> v = Some (JNum x) \<and> (\<forall>c\<in>set cs. num_ok x c)"
  by (auto simp: parse_number_def Let_def num_check_issues_Nil_iff split: option.splits json.splits)

lemma parse_genre_Inr_iff: "parse_genre p v = Inr g \<longleftrightarrow> v = JStr (genre_name g)"
  by (auto simp: parse_genre_def genre_of_string_Some_iff genre_name_inj
      split: json.splits option.splits)

lemma parse_genres_Inr_iff:
  "parse_genres p i xs = Inr gs \<longleftrightarrow> xs = map (\<lambda>g. JStr (genre_name g)) gs"
proof (induction xs arbitrary: i gs)
  case Nil
  then show ?case by auto
next
  case (Cons x xs)
  show ?case
    by (cases gs) (auto simp: vap_Inr_iff parse_genre_Inr_iff Cons.IH)
qed

lemma parse_genre_field_Inr_iff: "parse_genre_field v = Inr gs \<longleftrightarrow> v = Some (genre_json gs)"
  by (auto simp: parse_genre_field_def genre_json_def parse_genres_Inr_iff
      split: option.splits json.splits)

lemma parse_title_Inr_iff: "parse_title v = Inr s \<longleftrightarrow> v = Some (JStr s)"
  by (simp add: parse_title_def parse_string_Inr_iff)

lemma parse_director_Inr_iff: "parse_director v = Inr s \<longleftrightarrow> v = Some (JStr s)"
  by (simp add: parse_director_def parse_string_Inr_iff)

lemma parse_year_Inr_iff:
  "parse_year v = Inr x \<longleftrightarrow> v = Some (JNum x) \<and> js_is_integer x \<and> 1888 \<le> x \<and> x \<le> 2077"
  by (auto simp: parse_year_def year_checks_def parse_number_Inr_iff)

lemma parse_duration_Inr_iff:
  "parse_duration v = Inr x \<longleftrightarrow> v = Some (JNum x) \<and> js_is_integer x \<and> 0 < x"
  by (auto simp: parse_duration_def duration_checks_def parse_number_Inr_iff)

lemma parse_rate_Inr_iff:
  "parse_rate v = Inr x \<longleftrightarrow> (if v = None then x = 5 else v = Some (JNum x) \<and> 0 \<le> x \<and> x \<le> 10)"
  by (auto simp: parse_rate_def with_default_def rate_checks_def parse_number_Inr_iff
      split: option.splits)

lemma parse_poster_Inr_iff:
  "parse_poster u v = Inr s \<longleftrightarrow> v = Some (JStr s) \<and> u s"
  by (auto simp: parse_poster_def parse_string_def split: option.splits json.splits)

lemmas field_Inr_iffs = parse_title_Inr_iff parse_genre_field_Inr_iff parse_year_Inr_iff
  parse_duration_Inr_iff parse_director_Inr_iff parse_rate_Inr_iff parse_poster_Inr_iff

lemma movie_schema_Inr_iff_fields:
  "movie_schema u kvs = Inr d \<longleftrightarrow>
     parse_title (jget kvs ''title'') = Inr (title d) \<and>
     parse_genre_field (jget kvs ''genre'') = Inr (genre d) \<and>
     parse_year (jget kvs ''year'') = Inr (year d) \<and>
     parse_duration (jget kvs ''duration'') = Inr (duration d) \<and>
     parse_director (jget kvs ''director'') = Inr (director d) \<and>
     parse_rate (jget kvs ''rate'') = Inr (rate d) \<and>
     parse_poster u (jget kvs ''poster'') = Inr (poster d)"
proof (cases d)
  case (fields t g y du di r p)
  show ?thesis
  proof
    assume "movie_schema u kvs = Inr d"
    then show "parse_title (jget kvs ''title'') = Inr (title d) \<and>
     parse_genre_field (jget kvs ''genre'') = Inr (genre d) \<and>
     parse_year (jget kvs ''year'') = Inr (year d) \<and>
     parse_duration (jget kvs ''duration'') = Inr (duration d) \<and>
     parse_director (jget kvs ''director'') = Inr (director d) \<and>
     parse_rate (jget kvs ''rate'') = Inr (rate d) \<and>
     parse_poster u (jget kvs ''poster'') = Inr (poster d)"
      unfolding movie_schema_def by (auto elim!: vap_InrE simp: movie_data.make_def)
  qed (simp add: movie_schema_def movie_data.make_def fields)
qed

lemma movie_schema_Inr_iff:
  "movie_schema u kvs = Inr d \<longleftrightarrow>
     jget kvs ''title'' = Some (JStr (title d)) \<and>
     jget kvs ''genre'' = Some (genre_json (genre d)) \<and>
     jget kvs ''year'' = Some (JNum (year d)) \<and>
     jget kvs ''duration'' = Some (JNum (duration d)) \<and>
     jget kvs ''director'' = Some (JStr (director d)) \<and>
     (if jget kvs ''rate'' = None then rate d = 5 else jget kvs ''rate'' = Some (JNum (rate d))) \<and>
     jget kvs ''poster'' = Some (JStr (poster d)) \<and>
     data_wf u d"
  by (auto simp: movie_schema_Inr_iff_fields field_Inr_iffs data_wf_def split: if_splits)

subsection \<open>validateMovie accepts exactly the records the schema describes\<close>

text \<open>C8: validateMovie succeeds on an object exactly when title, director and poster are strings, genre is an array of names of the enumeration, year and duration are numbers, rate is absent (then it is 5) or a number, and the values satisfy the schema constraints (year an integer in [1888, 2077], duration a positive integer, rate in [0, 10], poster a URL); the result holds exactly these values, and every other property of the body is dropped.\<close>

theorem validateMovie_accepts:
  "validateMovie u (JObj kvs) = Inr d \<longleftrightarrow>
     jget kvs ''title'' = Some (JStr (title d)) \<and>
     jget kvs ''genre'' = Some (genre_json (genre d)) \<and>
     jget kvs ''year'' = Some (JNum (year d)) \<and>
     jget kvs ''duration'' = Some (JNum (duration d)) \<and>
     jget kvs ''director'' = Some (JStr (director d)) \<and>
     (if jget kvs ''rate'' = None then rate d = 5 else jget kvs ''rate'' = Some (JNum (rate d))) \<and>
     jget kvs ''poster'' = Some (JStr (poster d)) \<and>
     data_wf u d"
  by (simp add: validateMovie_def movie_schema_Inr_iff)

lemma validateMovie_data_wf: "validateMovie u v = Inr d \<Longrightarrow> data_wf u d"
  by (auto simp: validateMovie_def movie_schema_Inr_iff split: json.splits)

subsection \<open>A failure names every invalid field\<close>

lemma proper_parse_string [intro]: "proper (parse_string r i p v)"
  by (simp add: parse_string_def split: option.splits json.splits)

lemma proper_parse_number [intro]: "proper (parse_number cs p v)"
  by (simp add: parse_number_def Let_def split: option.splits json.splits)

lemma proper_parse_genre [intro]: "proper (parse_genre p v)"
  by (simp add: parse_genre_def split: option.splits json.splits)

lemma proper_parse_genres [intro]: "proper (parse_genres p i xs)"
  by (induction xs arbitrary: i) (auto intro!: proper_vap)

lemma proper_parse_poster [intro]: "proper (parse_poster u v)"
  using proper_parse_string [of None None "[PKey ''poster'']" v]
  by (auto simp: parse_poster_def split: sum.splits)

lemma proper_field_parsers [intro]:
  "proper (parse_title v)" "proper (parse_genre_field v)" "proper (parse_year v)"
  "proper (parse_duration v)" "proper (parse_director v)" "proper (parse_rate v)"
  by (auto simp: parse_title_def parse_genre_field_def parse_year_def parse_duration_def
      parse_director_def parse_rate_def with_default_def split: option.splits json.splits)

lemma proper_optional [intro]: "proper (f v) \<Longrightarrow> proper (optional f v)"
  by (cases "f v") (auto simp: optional_def split: option.splits)

lemma proper_object_issue [intro]: "proper (Inl [object_issue v])"
  by simp

lemma validateMovie_Inl_nonempty: "validateMovie u v = Inl iss \<Longrightarrow> iss \<noteq> []"
proof -
  have "proper (validateMovie u v)"
    unfolding validateMovie_def movie_schema_def
    by (auto intro!: proper_vap split: json.splits)
  then show "validateMovie u v = Inl iss \<Longrightarrow> iss \<noteq> []" by simp
qed

lemma validatePartial_proper: "proper (validatePartial u v)"
  unfolding validatePartial_def partial_schema_def
  by (auto intro!: proper_vap proper_optional split: json.splits)

lemma validatePartial_Inl_nonempty: "validatePartial u v = Inl iss \<Longrightarrow> iss \<noteq> []"
  using validatePartial_proper [of u v] by simp

text \<open>C9: validation does not stop at the first invalid field: the issues validateMovie reports for an object are those of title, genre, year, duration, director, rate and poster, all of them, in the schema order.\<close>

theorem validateMovie_reports_all:
  "errs (validateMovie u (JObj kvs)) =
     errs (parse_title (jget kvs ''title'')) @ errs (parse_genre_field (jget kvs ''genre'')) @
     errs (parse_year (jget kvs ''year'')) @ errs (parse_duration (jget kvs ''duration'')) @
     errs (parse_director (jget kvs ''director'')) @ errs (parse_rate (jget kvs ''rate'')) @
     errs (parse_poster u (jget kvs ''poster''))"
  by (simp add: validateMovie_def movie_schema_def)

subsection \<open>validatePartial\<close>

lemma optional_Inr_None_iff [simp]: "optional f v = Inr None \<longleftrightarrow> v = None"
  by (cases v; cases "f v") (auto simp: optional_def)

lemma optional_Inr_Some_iff [simp]: "optional f v = Inr (Some x) \<longleftrightarrow> v \<noteq> None \<and> f v = Inr x"
  by (cases v; cases "f v") (auto simp: optional_def)

lemma optional_Inr_pred:
  "optional f v = Inr r \<Longrightarrow> (\<And>x. f v = Inr x \<Longrightarrow> P x) \<Longrightarrow> pred_option P r"
  by (cases r) auto

lemma optional_Inr_None_eq: "optional f v = Inr r \<Longrightarrow> r = None \<longleftrightarrow> v = None"
  by (cases r) auto

lemma partial_schema_Inr_iff_fields:
  "partial_schema u kvs = Inr p \<longleftrightarrow>
     optional parse_title (jget kvs ''title'') = Inr (p_title p) \<and>
     optional parse_genre_field (jget kvs ''genre'') = Inr (p_genre p) \<and>
     optional parse_year (jget kvs ''year'') = Inr (p_year p) \<and>
     optional parse_duration (jget kvs ''duration'') = Inr (p_duration p) \<and>
     optional parse_director (jget kvs ''director'') = Inr (p_director p) \<and>
     optional parse_rate (jget kvs ''rate'') = Inr (p_rate p) \<and>
     optional (parse_poster u) (jget kvs ''poster'') = Inr (p_poster p)"
proof (cases p)
  case (fields t g y du di r po)
  show ?thesis
  proof
    assume "partial_schema u kvs = Inr p"
    then show "optional parse_title (jget kvs ''title'') = Inr (p_title p) \<and>
     optional parse_genre_field (jget kvs ''genre'') = Inr (p_genre p) \<and>
     optional parse_year (jget kvs ''year'') = Inr (p_year p) \<and>
     optional parse_duration (jget kvs ''duration'') = Inr (p_duration p) \<and>
     optional parse_director (jget kvs ''director'') = Inr (p_director p) \<and>
     optional parse_rate (jget kvs ''rate'') = Inr (p_rate p) \<and>
     optional (parse_poster u) (jget kvs ''poster'') = Inr (p_poster p)"
      unfolding partial_schema_def by (auto elim!: vap_InrE simp: movie_patch.make_def)
  qed (simp add: partial_schema_def movie_patch.make_def fields)
qed

lemma validatePartial_InrE:
  assumes "validatePartial u v = Inr p"
  obtains kvs where "v = JObj kvs" and "partial_schema u kvs = Inr p"
  using assms by (auto simp: validatePartial_def split: json.splits)

lemma partial_schema_sound: "partial_schema u kvs = Inr p \<Longrightarrow> patch_wf u p"
proof -
  assume "partial_schema u kvs = Inr p"
  then have f: "optional parse_year (jget kvs ''year'') = Inr (p_year p)"
    "optional parse_duration (jget kvs ''duration'') = Inr (p_duration p)"
    "optional parse_rate (jget kvs ''rate'') = Inr (p_rate p)"
    "optional (parse_poster u) (jget kvs ''poster'') = Inr (p_poster p)"
    by (simp_all add: partial_schema_Inr_iff_fields)
  show "patch_wf u p"
    unfolding patch_wf_def
    by (intro conjI optional_Inr_pred [OF f(1)] optional_Inr_pred [OF f(2)]
        optional_Inr_pred [OF f(3)] optional_Inr_pred [OF f(4)])
      (auto simp: field_Inr_iffs split: if_splits)
qed

lemma validatePartial_patch_wf: "validatePartial u b = Inr p \<Longrightarrow> patch_wf u p"
  by (auto simp: validatePartial_def split: json.splits intro: partial_schema_sound)

text \<open>C28: whatever validatePartial accepts satisfies the schema constraints on each property it carries.\<close>

theorem validatePartial_sound: "validatePartial u v = Inr p \<Longrightarrow> patch_wf u p"
  by (auto simp: validatePartial_def split: json.splits intro: partial_schema_sound)

text \<open>C29: validatePartial leaves a property of the update absent exactly when the body does not have it: no default applies in partial mode, rate included.\<close>

theorem validatePartial_absent:
  assumes "validatePartial u (JObj kvs) = Inr p"
  shows "(p_title p = None \<longleftrightarrow> jget kvs ''title'' = None) \<and>
         (p_genre p = None \<longleftrightarrow> jget kvs ''genre'' = None) \<and>
         (p_year p = None \<longleftrightarrow> jget kvs ''year'' = None) \<and>
         (p_duration p = None \<longleftrightarrow> jget kvs ''duration'' = None) \<and>
         (p_director p = None \<longleftrightarrow> jget kvs ''director'' = None) \<and>
         (p_rate p = None \<longleftrightarrow> jget kvs ''rate'' = None) \<and>
         (p_poster p = None \<longleftrightarrow> jget kvs ''poster'' = None)"
proof -
  from assms have "partial_schema u kvs = Inr p" by (simp add: validatePartial_def)
  then have o: "optional parse_title (jget kvs ''title'') = Inr (p_title p)"
    "optional parse_genre_field (jget kvs ''genre'') = Inr (p_genre p)"
    "optional parse_year (jget kvs ''year'') = Inr (p_year p)"
    "optional parse_duration (jget kvs ''duration'') = Inr (p_duration p)"
    "optional parse_director (jget kvs ''director'') = Inr (p_director p)"
    "optional parse_rate (jget kvs ''rate'') = Inr (p_rate p)"
    "optional (parse_poster u) (jget kvs ''poster'') = Inr (p_poster p)"
    by (simp_all only: partial_schema_Inr_iff_fields)
  then show ?thesis by (intro conjI) (erule optional_Inr_None_eq)+
qed

text \<open>C31: a body that validates fully also validates partially, to the update that sets every property, except rate when the body has none: the default of 5 applies only to creation.\<close>

theorem validateMovie_validatePartial:
  assumes "validateMovie u (JObj kvs) = Inr d"
  shows "validatePartial u (JObj kvs) =
           Inr ((data_patch d)\<lparr>p_rate := (if jget kvs ''rate'' = None then None else Some (rate d))\<rparr>)"
proof -
  from assms have "movie_schema u kvs = Inr d" by (simp add: validateMovie_def)
  then show ?thesis
    unfolding validatePartial_def json.case partial_schema_Inr_iff_fields movie_schema_Inr_iff_fields
    by (auto simp: data_patch_def field_Inr_iffs)
qed

text \<open>C30: a body without title and with a year below 1888 fails with (at least) both issues: the title is reported as missing (zod reports code invalid_type, received undefined, with the message Title is required) and the year as too small.\<close>

theorem validateMovie_title_and_year_issues:
  assumes "jget kvs ''title'' = None" and "jget kvs ''year'' = Some (JNum y)" and "y < 1888"
  shows "\<exists>iss. validateMovie u (JObj kvs) = Inl iss \<and>
     (\<exists>i\<in>set iss. icode i = Invalid_type ''string'' ''undefined'' \<and> ipath i = [PKey ''title''] \<and>
                  imessage i = ''Title is required'') \<and>
     (\<exists>i\<in>set iss. icode i = Too_small 1888 True \<and> ipath i = [PKey ''year''])"
proof -
  let ?r = "validateMovie u (JObj kvs)"
  have t: "\<exists>i\<in>set (errs ?r). icode i = Invalid_type ''string'' ''undefined'' \<and>
            ipath i = [PKey ''title''] \<and> imessage i = ''Title is required''"
    using assms(1) by (simp add: validateMovie_reports_all parse_title_def parse_string_def type_issue_def)
  have y: "\<exists>i\<in>set (errs ?r). icode i = Too_small 1888 True \<and> ipath i = [PKey ''year'']"
    using assms(2,3) by (auto simp: validateMovie_reports_all parse_year_def parse_number_def
        year_checks_def Let_def)
  from t have "errs ?r \<noteq> []" by auto
  then obtain iss where "?r = Inl iss" by (cases ?r) auto
  with t y show ?thesis by auto
qed



subsection \<open>Witnesses\<close>

theorem validatePartial_sound_witness:
  "validatePartial whatwg_url_ok (JObj rate_body) = Inr rate_patch \<and> patch_wf whatwg_url_ok rate_patch"
proof -
  have h: "validatePartial whatwg_url_ok (JObj rate_body) = Inr rate_patch"
    by (simp add: rate_body_def rate_patch_def schema_simps)
  show ?thesis using h validatePartial_sound [OF h] by simp
qed

theorem validatePartial_absent_witness:
  "validatePartial whatwg_url_ok (JObj rate_body) = Inr rate_patch \<and>
   (p_title rate_patch = None \<longleftrightarrow> jget rate_body ''title'' = None) \<and>
   (p_rate rate_patch = None \<longleftrightarrow> jget rate_body ''rate'' = None)"
proof -
  have h: "validatePartial whatwg_url_ok (JObj rate_body) = Inr rate_patch"
    by (simp add: rate_body_def rate_patch_def schema_simps)
  show ?thesis using h validatePartial_absent [OF h] by simp
qed

theorem validateMovie_title_and_year_issues_witness:
  "jget [(''year'', JNum 1700)] ''title'' = None \<and> jget [(''year'', JNum 1700)] ''year'' = Some (JNum 1700) \<and>
   (1700::rat) < 1888 \<and>
   (\<exists>iss. validateMovie whatwg_url_ok (JObj [(''year'', JNum 1700)]) = Inl iss \<and>
     (\<exists>i\<in>set iss. icode i = Invalid_type ''string'' ''undefined'' \<and> ipath i = [PKey ''title''] \<and>
                  imessage i = ''Title is required'') \<and>
     (\<exists>i\<in>set iss. icode i = Too_small 1888 True \<and> ipath i = [PKey ''year'']))"
  using validateMovie_title_and_year_issues [of "[(''year'', JNum 1700)]" 1700 whatwg_url_ok]
  by simp

theorem validateMovie_validatePartial_witness:
  "validateMovie whatwg_url_ok (JObj dune_members) = Inr dune_data \<and>
   validatePartial whatwg_url_ok (JObj dune_members) = Inr ((data_patch dune_data)\<lparr>p_rate := None\<rparr>)"
proof -
  have h: "validateMovie whatwg_url_ok (JObj dune_members) = Inr dune_data"
    by (simp add: dune_members_def dune_data_def schema_simps whatwg_url_simps)
  show ?thesis using h validateMovie_validatePartial [OF h] by (simp add: dune_members_def)
qed

end
