(* ===== verification/Scan.thy ===== *)
theory Scan
  imports Prelude "HOL-Library.While_Combinator"
begin

text \<open>
  \<open>Array.prototype.findIndex\<close>, which the PATCH and DELETE handlers of src/app.js
  call to locate a movie (lines 82 and 97), as the loop ECMAScript specifies: starting
  at \<open>k = 0\<close>, while \<open>k\<close> is below the length and the predicate fails at \<open>k\<close>, increase
  \<open>k\<close>; the answer is \<open>k\<close> if the loop stopped inside the array and \<open>-1\<close> otherwise.
  The loop is a \<open>while_option\<close>, whose \<open>None\<close> would be a loop that does not stop;
  the lemmas show it always stops, at the first match, so that \<open>js_findIndex\<close> agrees
  with the recursive \<open>find_idx\<close> of the prelude, on which the handler lemmas are stated.
\<close>

definition find_index_loop :: "('a \<Rightarrow> bool) \<Rightarrow> 'a list \<Rightarrow> nat option" where
  "find_index_loop p xs = while_option (\<lambda>k. k < length xs \<and> \<not> p (xs ! k)) Suc 0"

definition js_findIndex :: "('a \<Rightarrow> bool) \<Rightarrow> 'a list \<Rightarrow> int" where
  "js_findIndex p xs =
     (case find_index_loop p xs of
        Some k \<Rightarrow> if k < length xs then int k else -1
      | None \<Rightarrow> -1)"

section \<open>The loop stops at the first match\<close>

lemma find_index_loop_Some: "\<exists>k. find_index_loop p xs = Some k"
  unfolding find_index_loop_def
  by (rule measure_while_option_Some [where P = "\<lambda>k. k \<le> length xs" and f = "\<lambda>k. length xs - k"])
    auto

lemma find_index_loop_inv:
  assumes "find_index_loop p xs = Some k"
  shows "k \<le> length xs \<and> (\<forall>j<k. \<not> p (xs ! j)) \<and> (k < length xs \<longrightarrow> p (xs ! k))"
proof -
  have "k \<le> length xs \<and> (\<forall>j<k. \<not> p (xs ! j))"
    by (rule while_option_rule [where P = "\<lambda>k. k \<le> length xs \<and> (\<forall>j<k. \<not> p (xs ! j))",
          OF _ assms [unfolded find_index_loop_def]]) (auto simp: less_Suc_eq)
  moreover have "\<not> (k < length xs \<and> \<not> p (xs ! k))"
    using while_option_stop [OF assms [unfolded find_index_loop_def]] .
  ultimately show ?thesis by blast
qed

lemma find_index_loop_find_idx:
  "find_index_loop p xs = Some (case find_idx p xs of None \<Rightarrow> length xs | Some i \<Rightarrow> i)"
proof -
  obtain k where k: "find_index_loop p xs = Some k"
    using find_index_loop_Some by blast
  note inv = find_index_loop_inv [OF k]
  have "k = (case find_idx p xs of None \<Rightarrow> length xs | Some i \<Rightarrow> i)"
  proof (cases "find_idx p xs")
    case None
    with inv have "k = length xs" by (auto simp: find_idx_None_iff)
    with None show ?thesis by simp
  next
    case (Some i)
    then have i: "i < length xs" "p (xs ! i)" "\<forall>j<i. \<not> p (xs ! j)"
      by (simp_all add: find_idx_Some_iff)
    with inv have "\<not> k < i" and "\<not> i < k" by auto
    with Some show ?thesis by simp
  qed
  with k show ?thesis by simp
qed

lemma js_findIndex_find_idx:
  "js_findIndex p xs = (case find_idx p xs of None \<Rightarrow> -1 | Some i \<Rightarrow> int i)"
  by (auto simp: js_findIndex_def find_index_loop_find_idx dest: find_idx_SomeD split: option.splits)

lemma js_findIndex_neg_iff [simp]: "js_findIndex p xs = -1 \<longleftrightarrow> (\<forall>x\<in>set xs. \<not> p x)"
proof (cases "find_idx p xs")
  case None
  then show ?thesis by (simp add: js_findIndex_find_idx find_idx_None_iff [symmetric])
next
  case (Some i)
  then have "i < length xs \<and> p (xs ! i)" by (simp add: find_idx_Some_iff)
  with Some show ?thesis by (auto simp: js_findIndex_find_idx)
qed

lemma js_findIndex_Some [simp]: "find_idx p xs = Some i \<Longrightarrow> js_findIndex p xs = int i"
  by (simp add: js_findIndex_find_idx)

end
