(* ===== verification/Movies.thy ===== *)
theory Movies
  imports Schema Scan
begin

text \<open>
  The collection service of src/app.js: the in-memory array \<open>movies\<close> and the route
  handlers that read and change it. A movie is the validated data extended with its
  \<open>id\<close>, so an operation written for \<open>'a movie_data_scheme\<close> cannot touch the id.
  A handler takes the array and returns the response with the new array; the list
  handler, whose filter callback can throw, returns the thrown \<open>TypeError\<close> as \<open>Inl\<close>.
  The identifier \<open>crypto.randomUUID()\<close> draws is an argument of the create handler.
\<close>

section \<open>Data\<close>

record movie = movie_data +
  movie_id :: string

type_synonym store = "movie list"

text \<open>A value of \<open>req.query\<close>: a string, or the array or object the query parser makes of
  repeated or bracketed keys (\<open>?genre=a&genre=b\<close>, \<open>?genre[x]=a\<close>).\<close>

datatype qval = QStr string | QList "qval list" | QDict "(string \<times> qval) list"

text \<open>What \<open>res.json\<close> sends: an array of movies, one movie, a
  \<open>{message}\<close> object, or the \<open>{error}\<close> object with the parsed zod issues.\<close>

datatype body =
    Movies "movie list"
  | One movie
  | Message string
  | Errors "issue list"

datatype response = Resp nat body

datatype js_error = TypeError string

section \<open>Handlers\<close>

text \<open>\<open>GET /\<close>.\<close>

definition handle_root :: response where
  "handle_root = Resp 200 (Message ''Tranka palanka'')"

text \<open>Whether the query value is a string (and has \<open>toLowerCase\<close>).\<close>

definition is_qstr :: "qval \<Rightarrow> bool" where
  "is_qstr q = (case q of QStr _ \<Rightarrow> True | _ \<Rightarrow> False)"

text \<open>JavaScript truthiness of the query value: \<open>undefined\<close> and the empty string are
  false; any array or object, even an empty one, is true.\<close>

fun q_truthy :: "qval option \<Rightarrow> bool" where
  "q_truthy None = False"
| "q_truthy (Some (QStr s)) = (s \<noteq> [])"
| "q_truthy (Some (QList _)) = True"
| "q_truthy (Some (QDict _)) = True"

text \<open>\<open>movie.genre.some(g => g.toLowerCase() === genre.toLowerCase())\<close>: the callback
  throws when \<open>genre\<close> is not a string, at the first element it is called on.\<close>

fun genre_some :: "qval \<Rightarrow> genre list \<Rightarrow> js_error + bool" where
  "genre_some q [] = Inr False"
| "genre_some q (g # gs) =
     (case q of
        QStr s \<Rightarrow> if js_lower (genre_name g) = js_lower s then Inr True else genre_some q gs
      | _ \<Rightarrow> Inl (TypeError ''genre.toLowerCase is not a function''))"

text \<open>\<open>Array.prototype.filter\<close> with a callback that may throw.\<close>

fun js_filter :: "('a \<Rightarrow> js_error + bool) \<Rightarrow> 'a list \<Rightarrow> js_error + 'a list" where
  "js_filter p [] = Inr []"
| "js_filter p (x # xs) =
     (case p x of
        Inl e \<Rightarrow> Inl e
      | Inr b \<Rightarrow> (case js_filter p xs of Inl e \<Rightarrow> Inl e | Inr ys \<Rightarrow> Inr (if b then x # ys else ys)))"

text \<open>\<open>GET /movies\<close>.\<close>

definition handle_list :: "store \<Rightarrow> qval option \<Rightarrow> js_error + response" where
  "handle_list ms gq =
     (case gq of
        Some q \<Rightarrow>
          if q_truthy gq then
            (case js_filter (\<lambda>m. genre_some q (genre m)) ms of
               Inl e \<Rightarrow> Inl e
             | Inr fs \<Rightarrow> Inr (Resp 200 (Movies fs)))
          else Inr (Resp 200 (Movies ms))
      | None \<Rightarrow> Inr (Resp 200 (Movies ms)))"

text \<open>\<open>GET /movies/:id\<close>.\<close>

definition handle_get :: "store \<Rightarrow> string \<Rightarrow> response" where
  "handle_get ms i =
     (case find (\<lambda>m. movie_id m = i) ms of
        Some m \<Rightarrow> Resp 200 (One m)
      | None \<Rightarrow> Resp 404 (Message ''Movie not found''))"

text \<open>\<open>POST /movies/\<close>: \<open>{id: crypto.randomUUID(), ...result.data}\<close>, pushed at the end.\<close>

definition new_movie :: "string \<Rightarrow> movie_data \<Rightarrow> movie" where
  "new_movie u d = movie_data.extend d (movie.fields u)"

definition handle_create :: "(string \<Rightarrow> bool) \<Rightarrow> string \<Rightarrow> json \<Rightarrow> store \<Rightarrow> response \<times> store" where
  "handle_create url_ok u b ms =
     (case validateMovie url_ok b of
        Inl iss \<Rightarrow> (Resp 400 (Errors iss), ms)
      | Inr d \<Rightarrow> (let m = new_movie u d in (Resp 201 (One m), ms @ [m])))"

text \<open>\<open>{...movies[movieIndex], ...result.data}\<close>: the properties present in the update
  replace those of the movie, all others (the id among them) are kept.\<close>

definition patch_movie :: "movie_patch \<Rightarrow> 'a movie_data_scheme \<Rightarrow> 'a movie_data_scheme" where
  "patch_movie p m =
     m\<lparr>title := (case p_title p of None \<Rightarrow> title m | Some v \<Rightarrow> v),
       genre := (case p_genre p of None \<Rightarrow> genre m | Some v \<Rightarrow> v),
       year := (case p_year p of None \<Rightarrow> year m | Some v \<Rightarrow> v),
       duration := (case p_duration p of None \<Rightarrow> duration m | Some v \<Rightarrow> v),
       director := (case p_director p of None \<Rightarrow> director m | Some v \<Rightarrow> v),
       rate := (case p_rate p of None \<Rightarrow> rate m | Some v \<Rightarrow> v),
       poster := (case p_poster p of None \<Rightarrow> poster m | Some v \<Rightarrow> v)\<rparr>"

text \<open>\<open>PATCH /movies/:id\<close>: the body is validated before the movie is looked up.\<close>

definition handle_patch ::
  "(string \<Rightarrow> bool) \<Rightarrow> string \<Rightarrow> json \<Rightarrow> store \<Rightarrow> response \<times> store" where
  "handle_patch url_ok i b ms =
     (case validatePartial url_ok b of
        Inl iss \<Rightarrow> (Resp 400 (Errors iss), ms)
      | Inr p \<Rightarrow>
          (let idx = js_findIndex (\<lambda>m. movie_id m = i) ms in
           if idx = -1 then (Resp 404 (Message ''Movie not found''), ms)
           else (let m' = patch_movie p (ms ! nat idx) in (Resp 200 (One m'), ms[nat idx := m']))))"

text \<open>\<open>DELETE /movies/:id\<close>: \<open>movies.splice(movieIndex, 1)\<close>.\<close>

definition handle_delete :: "string \<Rightarrow> store \<Rightarrow> response \<times> store" where
  "handle_delete i ms =
     (let idx = js_findIndex (\<lambda>m. movie_id m = i) ms in
      if idx = -1 then (Resp 404 (Message ''Movie not found''), ms)
      else (Resp 200 (Message ''Movie deleted''), splice_one ms (nat idx)))"

section \<open>The store's invariant and its abstraction\<close>

text \<open>
  The invariant the spec states for the collection: identifiers are unique and every
  record satisfies the schema. \<open>store_map\<close> abstracts the array to the map from
  identifier to movie that the service promises: get is lookup, create an insertion,
  patch an update, delete a removal.
\<close>

definition ids :: "store \<Rightarrow> string list" where
  "ids ms = map movie_id ms"

definition store_wf :: "(string \<Rightarrow> bool) \<Rightarrow> store \<Rightarrow> bool" where
  "store_wf url_ok ms \<longleftrightarrow> distinct (ids ms) \<and> list_all (data_wf url_ok) ms"

definition store_map :: "store \<Rightarrow> string \<rightharpoonup> movie" where
  "store_map ms = map_of (map (\<lambda>m. (movie_id m, m)) ms)"

text \<open>The reference semantics of the genre filter: a movie is listed when one of its
  genres equals the query, ignoring case.\<close>

definition genre_matches :: "string \<Rightarrow> movie \<Rightarrow> bool" where
  "genre_matches s m \<longleftrightarrow> list_ex (\<lambda>g. js_lower (genre_name g) = js_lower s) (genre m)"


section \<open>Example data\<close>

text \<open>A seed record as movies.json holds them, and the identifier a creation draws.\<close>

definition godfather :: movie where
  "godfather = \<lparr>title = ''The Godfather'', genre = [Crime, Drama], year = 1972, duration = 175,
     director = ''Francis Ford Coppola'', rate = 92 / 10,
     poster = ''https://img.fruugo.com/product/4/49/14441494_max.jpg'',
     movie_id = ''dcdd0fad-a94c-4810-8acc-5f108d3b18c3''\<rparr>"

definition dune_id :: string where
  "dune_id = ''6a360a18-c645-4b47-9a7b-2a71babbf3e0''"

declare handle_create_def [handler_simps] handle_patch_def [handler_simps]
  handle_delete_def [handler_simps] handle_get_def [handler_simps] handle_list_def [handler_simps]
  js_findIndex_find_idx [handler_simps] splice_one_def [handler_simps] new_movie_def [handler_simps]
  patch_movie_def [handler_simps] movie_data.defs [handler_simps] movie.defs [handler_simps]
  ids_def [handler_simps] store_wf_def [handler_simps] store_map_def [handler_simps]

section \<open>Lemmas\<close>

subsection \<open>Basic facts\<close>

lemma store_map_keyed: "store_map ms = keyed movie_id ms"
  by (simp add: store_map_def)

lemma find_id_store_map: "find (\<lambda>m. movie_id m = i) ms = store_map ms i"
  by (simp add: store_map_def find_keyed)

lemma new_movie_id [simp]: "movie_id (new_movie u d) = u"
  by (simp add: new_movie_def movie_data.defs movie.defs)

lemma new_movie_data [simp]: "movie_data.truncate (new_movie u d) = d"
  by (simp add: new_movie_def movie_data.defs movie.defs)

lemma patch_movie_id [simp]: "movie_id (patch_movie p m) = movie_id m"
  by (simp add: patch_movie_def)

lemma ids_patch [simp]: "k < length ms \<Longrightarrow> ids (ms[k := patch_movie p (ms ! k)]) = ids ms"
  by (simp add: ids_def map_update list_update_same_conv)

lemma find_idx_id_SomeD:
  "find_idx (\<lambda>m. movie_id m = i) ms = Some k \<Longrightarrow> k < length ms \<and> movie_id (ms ! k) = i"
  by (simp add: find_idx_Some_iff)

lemma js_findIndex_id:
  "js_findIndex (\<lambda>m. movie_id m = i) ms =
     (case find_idx (\<lambda>m. movie_id m = i) ms of None \<Rightarrow> -1 | Some k \<Rightarrow> int k)"
  by (simp add: js_findIndex_find_idx)

lemma find_idx_id_None_iff: "find_idx (\<lambda>m. movie_id m = i) ms = None \<longleftrightarrow> i \<notin> set (ids ms)"
  by (auto simp: find_idx_None_iff ids_def)

lemma data_wf_patch_movie: "data_wf u m \<Longrightarrow> patch_wf u p \<Longrightarrow> data_wf u (patch_movie p m)"
  by (auto simp: data_wf_def patch_wf_def patch_movie_def split: option.splits)

lemma data_wf_new_movie: "data_wf u d \<Longrightarrow> data_wf u (new_movie u' d)"
  by (simp add: data_wf_def new_movie_def movie_data.defs movie.defs)

lemma store_map_None_iff: "store_map ms i = None \<longleftrightarrow> i \<notin> set (ids ms)"
  by (simp add: store_map_keyed keyed_None_iff ids_def)

subsection \<open>Handlers\<close>

lemma handle_get_lookup:
  "handle_get ms i = (case store_map ms i of Some m \<Rightarrow> Resp 200 (One m)
                      | None \<Rightarrow> Resp 404 (Message ''Movie not found''))"
  by (simp add: handle_get_def find_id_store_map)

text \<open>C5: for every movie in a collection with unique ids, GET /movies/:id with its id answers 200 with that movie.\<close>

theorem handle_get_found:
  assumes "distinct (ids ms)" and "m \<in> set ms"
  shows "handle_get ms (movie_id m) = Resp 200 (One m)"
  using find_distinct_key [of movie_id ms m] assms by (simp add: handle_get_def ids_def)

text \<open>C33: for an id no movie has, GET /movies/:id answers 404 Movie not found, DELETE
  answers 404 and leaves the collection unchanged, and PATCH with a valid body answers 404 and
  leaves it unchanged.\<close>

theorem unknown_id_404:
  assumes "i \<notin> set (ids ms)"
  shows "handle_get ms i = Resp 404 (Message ''Movie not found'') \<and>
         handle_delete i ms = (Resp 404 (Message ''Movie not found''), ms) \<and>
         (validatePartial u b = Inr p \<longrightarrow> handle_patch u i b ms = (Resp 404 (Message ''Movie not found''), ms))"
proof -
  from assms have m: "store_map ms i = None" by (simp add: store_map_None_iff)
  from assms have f: "find_idx (\<lambda>m. movie_id m = i) ms = None" by (simp add: find_idx_id_None_iff)
  from m have "handle_get ms i = Resp 404 (Message ''Movie not found'')" by (simp add: handle_get_lookup)
  moreover from f have "handle_delete i ms = (Resp 404 (Message ''Movie not found''), ms)"
    by (simp add: handle_delete_def js_findIndex_id)
  moreover from f have "validatePartial u b = Inr p \<longrightarrow>
      handle_patch u i b ms = (Resp 404 (Message ''Movie not found''), ms)"
    by (simp add: handle_patch_def js_findIndex_id)
  ultimately show ?thesis by blast
qed

text \<open>C4: POST /movies/ with a body validateMovie accepts answers 201 with a new movie whose id is the drawn UUID and whose other properties are exactly the validated data, and appends that movie at the end of the collection (its length grows by one).\<close>

theorem handle_create_valid:
  assumes "validateMovie u b = Inr d"
  shows "\<exists>m. handle_create u x b ms = (Resp 201 (One m), ms @ [m]) \<and>
             movie_id m = x \<and> movie_data.truncate m = d"
  using assms by (simp add: handle_create_def Let_def)

text \<open>C20: PATCH /movies/:id validates the body before it looks for the movie: an invalid body is answered 400 with the issues and the collection unchanged, whether or not the id exists.\<close>

theorem handle_patch_invalid_first:
  "validatePartial u b = Inl iss \<Longrightarrow> handle_patch u i b ms = (Resp 400 (Errors iss), ms)"
  by (simp add: handle_patch_def)


lemma find_idx_first_id:
  "movie_id m \<notin> set (ids xs) \<Longrightarrow>
     find_idx (\<lambda>m'. movie_id m' = movie_id m) (xs @ m # ys) = Some (length xs)"
  by (rule find_idx_append_Cons) (auto simp: ids_def list_ex_iff image_iff)

lemma genre_some_QStr:
  "genre_some (QStr s) gs = Inr (list_ex (\<lambda>g. js_lower (genre_name g) = js_lower s) gs)"
  by (induction gs) auto

lemma genre_some_not_string:
  "\<not> is_qstr q \<Longrightarrow>
     genre_some q gs = (if gs = [] then Inr False else Inl (TypeError ''genre.toLowerCase is not a function''))"
  by (cases gs) (auto simp: is_qstr_def split: qval.splits)

lemma js_filter_Inr: "(\<And>x. x \<in> set xs \<Longrightarrow> p x = Inr (P x)) \<Longrightarrow> js_filter p xs = Inr (filter P xs)"
  by (induction xs) auto

lemma js_filter_Inl:
  "(\<And>x. x \<in> set xs \<Longrightarrow> p x = (if P x then Inl e else Inr False)) \<Longrightarrow> list_ex P xs \<Longrightarrow>
     js_filter p xs = Inl e"
  by (induction xs) auto

lemma filter_genre_not_string:
  assumes "\<not> is_qstr q" and "list_ex (\<lambda>m. genre m \<noteq> []) ms"
  shows "js_filter (\<lambda>m. genre_some q (genre m)) ms = Inl (TypeError ''genre.toLowerCase is not a function'')"
  by (rule js_filter_Inl [where P = "\<lambda>m. genre m \<noteq> []"]) (simp_all add: genre_some_not_string [OF assms(1)] assms(2))

lemma q_truthy_not_string: "\<not> is_qstr q \<Longrightarrow> q_truthy (Some q)"
  by (cases q) (auto simp: is_qstr_def)

lemma genre_matches_eq: "genre_matches s = (\<lambda>m. list_ex (\<lambda>g. js_lower (genre_name g) = js_lower s) (genre m))"
  by (simp add: fun_eq_iff genre_matches_def)

lemma handle_list_QStr:
  "handle_list ms (Some (QStr s)) =
     Inr (Resp 200 (Movies (if s = [] then ms else filter (genre_matches s) ms)))"
  by (simp add: handle_list_def js_filter_Inr genre_some_QStr genre_matches_eq)


text \<open>C32: GET /movies without a genre parameter, or with an empty one, lists the whole collection in order.\<close>

theorem handle_list_unfiltered:
  "\<not> q_truthy gq \<Longrightarrow> handle_list ms gq = Inr (Resp 200 (Movies ms))"
  by (cases gq) (simp_all add: handle_list_def)

text \<open>C10: GET /movies?genre=s with a non-empty string s lists exactly the movies, in collection order, one of whose genres equals s when both are lower-cased.\<close>

theorem handle_list_genre:
  "s \<noteq> [] \<Longrightarrow> handle_list ms (Some (QStr s)) = Inr (Resp 200 (Movies (filter (genre_matches s) ms)))"
  by (simp add: handle_list_QStr)

text \<open>C12: the genre filter ignores case: two queries that lower-case to the same string give the same answer (horror, HORROR and Horror list the same movies).\<close>

theorem handle_list_case_insensitive:
  "js_lower s = js_lower t \<Longrightarrow> handle_list ms (Some (QStr s)) = handle_list ms (Some (QStr t))"
proof -
  assume eq: "js_lower s = js_lower t"
  then have "length s = length t" by (metis length_js_lower)
  then have "s = [] \<longleftrightarrow> t = []" by auto
  moreover from eq have "genre_matches s = genre_matches t" by (simp add: fun_eq_iff genre_matches_def)
  ultimately show ?thesis by (simp add: handle_list_QStr)
qed

text \<open>C13: GET /movies with a genre parameter that is not a string (the query parser makes an array of ?genre=a&genre=b) throws a TypeError as soon as a listed movie has a genre, so the request fails with 500 instead of being answered.\<close>

theorem handle_list_type_error:
  "\<not> is_qstr q \<Longrightarrow> list_ex (\<lambda>m. genre m \<noteq> []) ms \<Longrightarrow>
     handle_list ms (Some q) = Inl (TypeError ''genre.toLowerCase is not a function'')"
  by (simp add: handle_list_def filter_genre_not_string q_truthy_not_string)

text \<open>C6: PATCH /movies/:id with a valid update replaces the first movie with that id by the movie with the update's properties overwritten, keeps its position and every other movie, and answers 200 with the updated movie; its id is unchanged.\<close>

theorem handle_patch_first:
  assumes "validatePartial u b = Inr p" and "movie_id m \<notin> set (ids xs)"
  shows "handle_patch u (movie_id m) b (xs @ m # ys) =
           (Resp 200 (One (patch_movie p m)), xs @ patch_movie p m # ys)"
  using assms by (simp add: handle_patch_def js_findIndex_find_idx find_idx_first_id Let_def)

text \<open>C16: PATCH never changes an identifier: whatever the body holds (an id property
  included), the ids of the collection stay the same, in the same order.\<close>

theorem handle_patch_ids: "ids (snd (handle_patch u i b ms)) = ids ms"
proof (cases "validatePartial u b")
  case (Inl iss)
  then show ?thesis by (simp add: handle_patch_def)
next
  case (Inr p)
  show ?thesis
  proof (cases "find_idx (\<lambda>m. movie_id m = i) ms")
    case None
    with Inr show ?thesis by (simp add: handle_patch_def js_findIndex_id)
  next
    case (Some k)
    with Inr find_idx_id_SomeD [OF Some] show ?thesis
      by (simp add: handle_patch_def js_findIndex_id Let_def)
  qed
qed

text \<open>C22: a partial update holding only a rate r in [0, 10] changes the rate of the movie to r and nothing else.\<close>

theorem handle_patch_rate_only:
  assumes "0 \<le> r" and "r \<le> 10" and "movie_id m \<notin> set (ids xs)"
  shows "handle_patch u (movie_id m) (JObj [(''rate'', JNum r)]) (xs @ m # ys) =
           (Resp 200 (One (m\<lparr>rate := r\<rparr>)), xs @ m\<lparr>rate := r\<rparr> # ys)"
proof -
  have v: "validatePartial u (JObj [(''rate'', JNum r)]) =
             Inr \<lparr>p_title = None, p_genre = None, p_year = None, p_duration = None,
                  p_director = None, p_rate = Some r, p_poster = None\<rparr>"
    using assms(1,2) by (simp add: schema_simps not_less)
  then show ?thesis
    using assms(3) by (simp add: handle_patch_def js_findIndex_find_idx find_idx_first_id Let_def patch_movie_def)
qed

text \<open>C7: DELETE /movies/:id removes exactly the first movie with that id, keeps the order of all others, and answers 200 with the message Movie deleted.\<close>

theorem handle_delete_first:
  assumes "movie_id m \<notin> set (ids xs)"
  shows "handle_delete (movie_id m) (xs @ m # ys) = (Resp 200 (Message ''Movie deleted''), xs @ ys)"
  using assms by (simp add: handle_delete_def js_findIndex_find_idx find_idx_first_id splice_one_append_Cons)


subsection \<open>The size of the collection\<close>

lemma length_handle_create:
  "length (snd (handle_create url_ok u b ms)) =
     (case validateMovie url_ok b of Inl _ \<Rightarrow> length ms | Inr _ \<Rightarrow> Suc (length ms))"
  by (simp add: handle_create_def Let_def split: sum.split)

lemma length_handle_patch: "length (snd (handle_patch url_ok i b ms)) = length ms"
  by (simp add: handle_patch_def Let_def split: sum.split)

lemma length_handle_delete:
  "length (snd (handle_delete i ms)) = (if i \<in> set (ids ms) then length ms - 1 else length ms)"
proof (cases "find_idx (\<lambda>m. movie_id m = i) ms")
  case None
  then have "i \<notin> set (ids ms)" by (simp add: find_idx_id_None_iff)
  with None show ?thesis by (simp add: handle_delete_def js_findIndex_id)
next
  case (Some k)
  then have "k < length ms" "i \<in> set (ids ms)"
    using find_idx_id_SomeD [OF Some] by (auto simp: ids_def)
  with Some show ?thesis by (simp add: handle_delete_def js_findIndex_id)
qed

subsection \<open>The store invariant\<close>

lemma store_wf_create:
  assumes "store_wf u ms" and "x \<notin> set (ids ms)"
  shows "store_wf u (snd (handle_create u x b ms))"
proof (cases "validateMovie u b")
  case (Inl iss)
  with assms(1) show ?thesis by (simp add: handle_create_def)
next
  case (Inr d)
  then have "data_wf u d" by (rule validateMovie_data_wf)
  with Inr assms show ?thesis
    by (simp add: handle_create_def store_wf_def ids_def data_wf_new_movie Let_def)
qed

lemma store_wf_patch:
  assumes wf: "store_wf u ms"
  shows "store_wf u (snd (handle_patch u i b ms))"
proof (cases "validatePartial u b")
  case (Inl iss)
  with wf show ?thesis by (simp add: handle_patch_def)
next
  case (Inr p)
  then have pw: "patch_wf u p" by (rule validatePartial_patch_wf)
  show ?thesis
  proof (cases "find_idx (\<lambda>m. movie_id m = i) ms")
    case None
    with Inr wf show ?thesis by (simp add: handle_patch_def js_findIndex_find_idx)
  next
    case (Some k)
    then have k: "k < length ms" by (simp add: find_idx_Some_iff)
    from wf k have "data_wf u (ms ! k)" by (simp add: store_wf_def list_all_length)
    then have "data_wf u (patch_movie p (ms ! k))" using pw by (rule data_wf_patch_movie)
    with Inr Some wf k show ?thesis
      by (simp add: handle_patch_def js_findIndex_find_idx Let_def store_wf_def list_all_update)
  qed
qed

lemma store_wf_delete:
  assumes wf: "store_wf u ms"
  shows "store_wf u (snd (handle_delete i ms))"
proof (cases "find_idx (\<lambda>m. movie_id m = i) ms")
  case None
  with wf show ?thesis by (simp add: handle_delete_def js_findIndex_find_idx)
next
  case (Some k)
  from wf have "distinct (ids (splice_one ms k))"
    by (simp add: store_wf_def ids_def map_splice_one distinct_splice_one)
  moreover from wf have "list_all (data_wf u) (splice_one ms k)"
    by (auto simp: store_wf_def list_all_iff dest: subsetD [OF set_splice_one_subset])
  ultimately show ?thesis
    using Some by (simp add: handle_delete_def js_findIndex_find_idx store_wf_def)
qed

subsection \<open>The store as a map\<close>

lemma store_map_create:
  assumes "validateMovie u b = Inr d" and "x \<notin> set (ids ms)"
  shows "store_map (snd (handle_create u x b ms)) = (store_map ms)(x \<mapsto> new_movie x d)"
proof -
  have s: "snd (handle_create u x b ms) = ms @ [new_movie x d]"
    using assms(1) by (simp add: handle_create_def Let_def)
  have k: "keyed movie_id (ms @ [new_movie x d]) = (keyed movie_id ms)(x \<mapsto> new_movie x d)"
    using keyed_append_fresh [of movie_id "new_movie x d" ms] assms(2) by (simp add: ids_def)
  show ?thesis using s k by (simp only: store_map_keyed)
qed

lemma store_map_Some_find_idx:
  "find_idx (\<lambda>m. movie_id m = i) ms = Some k \<Longrightarrow> store_map ms i = Some (ms ! k)"
  by (simp add: find_id_store_map [symmetric] find_conv_find_idx)

lemma store_map_patch:
  assumes "distinct (ids ms)" and "validatePartial u b = Inr p"
  shows "store_map (snd (handle_patch u i b ms)) =
           (case store_map ms i of None \<Rightarrow> store_map ms | Some m \<Rightarrow> (store_map ms)(i \<mapsto> patch_movie p m))"
proof (cases "find_idx (\<lambda>m. movie_id m = i) ms")
  case None
  then have "store_map ms i = None" by (simp add: store_map_None_iff find_idx_id_None_iff)
  with None assms(2) show ?thesis by (simp add: handle_patch_def js_findIndex_find_idx)
next
  case (Some k)
  then have k: "k < length ms" "movie_id (ms ! k) = i" by (simp_all add: find_idx_Some_iff)
  from Some have "store_map ms i = Some (ms ! k)" by (rule store_map_Some_find_idx)
  with Some k assms show ?thesis
    by (simp add: handle_patch_def js_findIndex_find_idx Let_def store_map_keyed keyed_update ids_def)
qed

lemma store_map_delete:
  assumes "distinct (ids ms)"
  shows "store_map (snd (handle_delete i ms)) = (store_map ms)(i := None)"
proof (cases "find_idx (\<lambda>m. movie_id m = i) ms")
  case None
  then have "store_map ms i = None" by (simp add: store_map_None_iff find_idx_id_None_iff)
  with None show ?thesis by (simp add: handle_delete_def js_findIndex_find_idx fun_upd_idem)
next
  case (Some k)
  then have k: "k < length ms" "movie_id (ms ! k) = i" by (simp_all add: find_idx_Some_iff)
  with Some assms show ?thesis
    by (simp add: handle_delete_def js_findIndex_find_idx store_map_keyed keyed_splice_one ids_def)
qed

lemma handle_delete_None:
  "find_idx (\<lambda>m. movie_id m = i) ms = None \<Longrightarrow>
     handle_delete i ms = (Resp 404 (Message ''Movie not found''), ms)"
  by (simp add: handle_delete_def js_findIndex_find_idx)

text \<open>C21: after a successful DELETE of an id in a collection with unique ids, GET of that id answers 404 and a second DELETE of it answers 404: a delete never succeeds twice.\<close>

theorem delete_then_get:
  assumes "distinct (ids ms)"
  shows "handle_get (snd (handle_delete i ms)) i = Resp 404 (Message ''Movie not found'') \<and>
         fst (handle_delete i (snd (handle_delete i ms))) = Resp 404 (Message ''Movie not found'')"
proof -
  define ms' where "ms' = snd (handle_delete i ms)"
  have n: "store_map ms' i = None"
    using assms by (simp add: ms'_def store_map_delete)
  then have "find_idx (\<lambda>m. movie_id m = i) ms' = None"
    by (simp add: store_map_None_iff find_idx_id_None_iff)
  then have "handle_delete i ms' = (Resp 404 (Message ''Movie not found''), ms')"
    by (rule handle_delete_None)
  with n show ?thesis by (simp add: handle_get_lookup flip: ms'_def)
qed


subsection \<open>Witnesses\<close>

theorem handle_create_valid_witness:
  "validateMovie whatwg_url_ok (JObj dune_members) = Inr dune_data \<and>
   (\<exists>m. handle_create whatwg_url_ok dune_id (JObj dune_members) [godfather] =
          (Resp 201 (One m), [godfather] @ [m]) \<and> movie_id m = dune_id \<and> movie_data.truncate m = dune_data)"
proof -
  have h: "validateMovie whatwg_url_ok (JObj dune_members) = Inr dune_data"
    by (simp add: dune_members_def dune_data_def schema_simps whatwg_url_simps)
  show ?thesis using h handle_create_valid [OF h, of dune_id "[godfather]"] by simp
qed

theorem handle_get_found_witness:
  "distinct (ids [godfather]) \<and> godfather \<in> set [godfather] \<and>
   handle_get [godfather] (movie_id godfather) = Resp 200 (One godfather)"
  using handle_get_found [of "[godfather]" godfather] by (simp add: ids_def)

theorem handle_patch_first_witness:
  "validatePartial whatwg_url_ok (JObj rate_body) = Inr rate_patch \<and> movie_id godfather \<notin> set (ids []) \<and>
   handle_patch whatwg_url_ok (movie_id godfather) (JObj rate_body) ([] @ godfather # []) =
     (Resp 200 (One (patch_movie rate_patch godfather)), [] @ patch_movie rate_patch godfather # [])"
proof -
  have h: "validatePartial whatwg_url_ok (JObj rate_body) = Inr rate_patch"
    by (simp add: rate_body_def rate_patch_def schema_simps)
  have i: "movie_id godfather \<notin> set (ids [])" by (simp add: ids_def)
  show ?thesis using h i handle_patch_first [OF h i, of "[]"] by simp
qed

theorem handle_delete_first_witness:
  "movie_id godfather \<notin> set (ids []) \<and>
   handle_delete (movie_id godfather) ([] @ godfather # []) = (Resp 200 (Message ''Movie deleted''), [] @ [])"
  using handle_delete_first [of godfather "[]" "[]"] by (simp add: ids_def)

theorem handle_list_genre_witness:
  "''horror'' \<noteq> [] \<and>
   handle_list [godfather] (Some (QStr ''horror'')) = Inr (Resp 200 (Movies (filter (genre_matches ''horror'') [godfather]))) \<and>
   filter (genre_matches ''crime'') [godfather] = [godfather]"
proof -
  have "filter (genre_matches ''crime'') [godfather] = [godfather]"
    by (simp add: genre_matches_def godfather_def js_lower_simps)
  then show ?thesis using handle_list_genre [of "''horror''" "[godfather]"] by simp
qed

theorem handle_list_case_insensitive_witness:
  "js_lower ''CRIME'' = js_lower ''crime'' \<and>
   handle_list [godfather] (Some (QStr ''CRIME'')) = handle_list [godfather] (Some (QStr ''crime''))"
proof -
  have h: "js_lower ''CRIME'' = js_lower ''crime''" by (simp add: js_lower_simps)
  show ?thesis using h handle_list_case_insensitive [OF h, of "[godfather]"] by simp
qed

theorem handle_list_type_error_witness:
  "\<not> is_qstr (QList [QStr ''crime'', QStr ''drama'']) \<and> list_ex (\<lambda>m. genre m \<noteq> []) [godfather] \<and>
   handle_list [godfather] (Some (QList [QStr ''crime'', QStr ''drama''])) =
     Inl (TypeError ''genre.toLowerCase is not a function'')"
proof -
  have h: "\<not> is_qstr (QList [QStr ''crime'', QStr ''drama''])" by (simp add: is_qstr_def)
  have g: "list_ex (\<lambda>m. genre m \<noteq> []) [godfather]" by (simp add: godfather_def)
  show ?thesis using h g handle_list_type_error [OF h g] by simp
qed

theorem handle_patch_invalid_first_witness:
  "validatePartial whatwg_url_ok (JObj [(''rate'', JNum 11)]) =
     Inl [\<lparr>icode = Too_big 10 True, ipath = [PKey ''rate''], imessage = ''Number must be less than or equal to 10''\<rparr>] \<and>
   handle_patch whatwg_url_ok ''no-such-id'' (JObj [(''rate'', JNum 11)]) [godfather] =
     (Resp 400 (Errors [\<lparr>icode = Too_big 10 True, ipath = [PKey ''rate''], imessage = ''Number must be less than or equal to 10''\<rparr>]), [godfather])"
proof -
  have h: "validatePartial whatwg_url_ok (JObj [(''rate'', JNum 11)]) =
     Inl [\<lparr>icode = Too_big 10 True, ipath = [PKey ''rate''], imessage = ''Number must be less than or equal to 10''\<rparr>]"
    by (simp add: schema_simps show_int_def)
  show ?thesis using h handle_patch_invalid_first [OF h, of "''no-such-id''" "[godfather]"] by simp
qed

theorem delete_then_get_witness:
  "distinct (ids [godfather]) \<and>
   handle_get (snd (handle_delete (movie_id godfather) [godfather])) (movie_id godfather) = Resp 404 (Message ''Movie not found'') \<and>
   fst (handle_delete (movie_id godfather) (snd (handle_delete (movie_id godfather) [godfather]))) = Resp 404 (Message ''Movie not found'')"
  using delete_then_get [of "[godfather]" "movie_id godfather"] by (simp add: ids_def)

theorem handle_patch_rate_only_witness:
  "0 \<le> (19 / 2 :: rat) \<and> (19 / 2 :: rat) \<le> 10 \<and> movie_id godfather \<notin> set (ids []) \<and>
   handle_patch whatwg_url_ok (movie_id godfather) (JObj [(''rate'', JNum (19 / 2))]) ([] @ godfather # []) =
     (Resp 200 (One (godfather\<lparr>rate := 19 / 2\<rparr>)), [] @ godfather\<lparr>rate := 19 / 2\<rparr> # [])"
  using handle_patch_rate_only [of "19 / 2" godfather "[]" whatwg_url_ok "[]"] by (simp add: ids_def)


theorem handle_list_unfiltered_witness:
  "\<not> q_truthy (Some (QStr [])) \<and> handle_list [godfather] (Some (QStr [])) = Inr (Resp 200 (Movies [godfather]))"
proof -
  have h: "\<not> q_truthy (Some (QStr []))" by simp
  show ?thesis using h handle_list_unfiltered [OF h, of "[godfather]"] by simp
qed

theorem unknown_id_404_witness:
  "''does-not-exist'' \<notin> set (ids [godfather]) \<and>
   handle_get [godfather] ''does-not-exist'' = Resp 404 (Message ''Movie not found'') \<and>
   handle_delete ''does-not-exist'' [godfather] = (Resp 404 (Message ''Movie not found''), [godfather]) \<and>
   validatePartial whatwg_url_ok (JObj rate_body) = Inr rate_patch \<and>
   handle_patch whatwg_url_ok ''does-not-exist'' (JObj rate_body) [godfather] =
     (Resp 404 (Message ''Movie not found''), [godfather])"
proof -
  have v: "validatePartial whatwg_url_ok (JObj rate_body) = Inr rate_patch"
    by (simp add: rate_body_def rate_patch_def schema_simps)
  have h: "''does-not-exist'' \<notin> set (ids [godfather])" by (simp add: ids_def godfather_def)
  show ?thesis
    using v h unknown_id_404 [OF h, of whatwg_url_ok "JObj rate_body" rate_patch] by simp
qed

end
