(* ===== verification/Server.thy ===== *)
theory Server
  imports Movies
begin

text \<open>
  The request pipeline of src/app.js in the order the middleware is installed:
  \<open>express.json()\<close> parses the body, the \<open>cors\<close> middleware asks the origin callback,
  then the first route whose method and path match runs its handler. An error passed
  to \<open>next\<close> or thrown by a handler reaches Express's default error handler, which
  answers with the error's status (400 for a body \<open>express.json()\<close> cannot parse, 500
  otherwise); a request no route matches gets Express's 404. Routes are matched on the
  path as sent; the \<open>:id\<close> parameter is decoded with \<open>decodeURIComponent\<close> when a
  \<open>/movies/:id\<close> path matches, and Express answers 400 when it cannot be. \<open>serve\<close> is one request
  with the UUID the create handler would draw; \<open>server_step\<close> is one request of the
  running service, whose UUID is any identifier not in use (the model's reading of
  \<open>crypto.randomUUID()\<close>, which the code trusts not to collide), and \<open>reachable\<close> are
  the stores the service can reach from the seed dataset; \<open>run\<close> serves a sequence of
  requests in order. What the service promises of its collection is stated over the map
  from identifier to movie: each request names one operation on it (\<open>request_op\<close>),
  which \<open>apply_op\<close> performs.
\<close>

section \<open>Requests and outcomes\<close>

datatype http_method = GET | HEAD | POST | PATCH | DELETE | OPTIONS | OTHER string

text \<open>The body as it arrives: none (or not JSON), a JSON text, or text that does not parse.\<close>

datatype raw_body = NoBody | JsonText json | Malformed

text \<open>The path segments as sent, percent-escapes kept (Express's non-strict routing
  ignores a trailing slash), the decoded key/value pairs of the query string in order, the
  body and the \<open>Origin\<close> header.\<close>

record request =
  rmethod :: http_method
  rpath :: "string list"
  rquery :: "(string \<times> string) list"
  rbody :: raw_body
  rorigin :: "string option"

datatype outcome =
    Handled response
  | Preflight_ok \<comment> \<open>the 204 the \<open>cors\<close> middleware sends for an allowed preflight\<close>
  | Express_error nat string \<comment> \<open>status and message of Express's own responses\<close>

text \<open>The status code an outcome is sent with.\<close>

fun outcome_status :: "outcome \<Rightarrow> nat" where
  "outcome_status (Handled (Resp st b)) = st"
| "outcome_status Preflight_ok = 204"
| "outcome_status (Express_error st m) = st"

section \<open>Middleware\<close>

text \<open>\<open>express.json()\<close> in its default strict mode: no JSON body leaves \<open>req.body\<close>
  as \<open>{}\<close>; a JSON text must be an object or an array, anything else fails with 400.\<close>

fun parse_body :: "raw_body \<Rightarrow> json option" where
  "parse_body NoBody = Some (JObj [])"
| "parse_body (JsonText (JObj kvs)) = Some (JObj kvs)"
| "parse_body (JsonText (JArr xs)) = Some (JArr xs)"
| "parse_body (JsonText _) = None"
| "parse_body Malformed = None"

text \<open>The origin callback given to \<open>cors\<close>.\<close>

definition accepted_origins :: "string list" where
  "accepted_origins = [''http://localhost:3000'', ''http://localhost:8080'', ''https://localhost:3333'']"

definition cors_origin :: "string option \<Rightarrow> bool" where
  "cors_origin origin =
     (if list_ex (\<lambda>a. origin = Some a) accepted_origins then True
      else if origin = None \<or> origin = Some [] then True
      else False)"

text \<open>\<open>req.query.genre\<close>: Express's query parser gives a key that occurs once its
  string and a key that occurs several times the array of its values, in order.\<close>

definition query_values :: "(string \<times> string) list \<Rightarrow> string \<Rightarrow> string list" where
  "query_values q k = map snd (filter (\<lambda>(k', v). k' = k) q)"

definition query_param :: "(string \<times> string) list \<Rightarrow> string \<Rightarrow> qval option" where
  "query_param q k =
     (case query_values q k of
        [] \<Rightarrow> None
      | [v] \<Rightarrow> Some (QStr v)
      | vs \<Rightarrow> Some (QList (map QStr vs)))"

section \<open>Routing\<close>

text \<open>Express matches a route against the path as sent: literal segments match regardless
  of case, as Express routes by default, and escapes are not decoded there.\<close>

definition is_movies :: "string \<Rightarrow> bool" where
  "is_movies s \<longleftrightarrow> js_lower s = ''movies''"

definition not_found :: "store \<Rightarrow> outcome \<times> store" where
  "not_found ms = (Express_error 404 ''Cannot handle this method and path'', ms)"

fun dispatch ::
  "(string \<Rightarrow> bool) \<Rightarrow> string \<Rightarrow> (string \<times> string) list \<Rightarrow> json \<Rightarrow> http_method \<Rightarrow> string list \<Rightarrow>
     store \<Rightarrow> outcome \<times> store" where
  "dispatch url_ok u q b GET [] ms = (Handled handle_root, ms)"
| "dispatch url_ok u q b GET [s] ms =
     (if is_movies s then
        (case handle_list ms (query_param q ''genre'') of
           Inl (TypeError m) \<Rightarrow> (Express_error 500 m, ms)
         | Inr r \<Rightarrow> (Handled r, ms))
      else not_found ms)"
| "dispatch url_ok u q b GET [s, i] ms =
     (if is_movies s then (Handled (handle_get ms i), ms) else not_found ms)"
| "dispatch url_ok u q b POST [s] ms =
     (if is_movies s then (case handle_create url_ok u b ms of (r, ms') \<Rightarrow> (Handled r, ms'))
      else not_found ms)"
| "dispatch url_ok u q b PATCH [s, i] ms =
     (if is_movies s then (case handle_patch url_ok i b ms of (r, ms') \<Rightarrow> (Handled r, ms'))
      else not_found ms)"
| "dispatch url_ok u q b DELETE [s, i] ms =
     (if is_movies s then (case handle_delete i ms of (r, ms') \<Rightarrow> (Handled r, ms'))
      else not_found ms)"
| "dispatch url_ok u q b m p ms = not_found ms"

text \<open>A route parameter is decoded with \<open>decodeURIComponent\<close> when a route's path
  matches, before its method is looked at. The first route of src/app.js whose path is
  \<open>/movies/:id\<close> is the GET route (line 50), so for a path \<open>/movies/p\<close> of any
  method the router decodes \<open>p\<close> first; if that throws, the router holds the error,
  no later route runs, and Express answers 400. \<open>decode_path\<close> gives that parameter
  (\<open>Inl\<close>) or the path the routes see, its parameter decoded (\<open>Inr\<close>).\<close>

definition decode_path :: "string list \<Rightarrow> string + string list" where
  "decode_path p =
     (case p of
        [s, i] \<Rightarrow>
          if is_movies s then
            (case decode_uri_component i of None \<Rightarrow> Inl i | Some i' \<Rightarrow> Inr [s, i'])
          else Inr p
      | _ \<Rightarrow> Inr p)"

text \<open>Express's router runs the GET route of a path for a HEAD request; the response is
  the GET response, of which only the status and headers are sent.\<close>

definition route_method :: "http_method \<Rightarrow> http_method" where
  "route_method m = (if m = HEAD then GET else m)"

definition serve :: "(string \<Rightarrow> bool) \<Rightarrow> string \<Rightarrow> request \<Rightarrow> store \<Rightarrow> outcome \<times> store" where
  "serve url_ok u r ms =
     (case parse_body (rbody r) of
        None \<Rightarrow> (Express_error 400 ''Unexpected token in JSON'', ms)
      | Some b \<Rightarrow>
          if \<not> cors_origin (rorigin r) then (Express_error 500 ''Not allowed by CORS'', ms)
          else if rmethod r = OPTIONS then (Preflight_ok, ms)
          else
            (case decode_path (rpath r) of
               Inl i \<Rightarrow> (Express_error 400 (''Failed to decode param '' @ squote i), ms)
             | Inr p \<Rightarrow> dispatch url_ok u (rquery r) b (route_method (rmethod r)) p ms))"

section \<open>The running service\<close>

inductive server_step :: "(string \<Rightarrow> bool) \<Rightarrow> store \<Rightarrow> request \<Rightarrow> outcome \<Rightarrow> store \<Rightarrow> bool"
  for url_ok where
  serve_fresh: "u \<notin> set (ids ms) \<Longrightarrow> serve url_ok u r ms = (out, ms') \<Longrightarrow>
     server_step url_ok ms r out ms'"

inductive reachable :: "(string \<Rightarrow> bool) \<Rightarrow> store \<Rightarrow> store \<Rightarrow> bool" for url_ok seed where
  seed: "reachable url_ok seed seed"
| step: "reachable url_ok seed ms \<Longrightarrow> server_step url_ok ms r out ms' \<Longrightarrow> reachable url_ok seed ms'"

text \<open>A sequence of requests, each with the UUID it draws, run from a store.\<close>

fun run :: "(string \<Rightarrow> bool) \<Rightarrow> (string \<times> request) list \<Rightarrow> store \<Rightarrow> outcome list \<times> store" where
  "run url_ok [] ms = ([], ms)"
| "run url_ok ((u, r) # rs) ms =
     (case serve url_ok u r ms of
        (out, ms') \<Rightarrow> (case run url_ok rs ms' of (outs, ms'') \<Rightarrow> (out # outs, ms'')))"

section \<open>The abstract store\<close>

text \<open>
  What the service promises of its collection, as a map from identifier to movie: each
  request asks for one operation on the map (\<open>request_op\<close>, read off the request as the spec's operation
  table describes it), and \<open>apply_op\<close> is what that operation does to the map.
\<close>

datatype abs_op = Op_none | Op_insert movie_data | Op_update string movie_patch | Op_remove string

fun route_op :: "(string \<Rightarrow> bool) \<Rightarrow> json \<Rightarrow> http_method \<Rightarrow> string list \<Rightarrow> abs_op" where
  "route_op url_ok b POST [s] =
     (if is_movies s then (case validateMovie url_ok b of Inr d \<Rightarrow> Op_insert d | Inl _ \<Rightarrow> Op_none)
      else Op_none)"
| "route_op url_ok b PATCH [s, i] =
     (if is_movies s then (case validatePartial url_ok b of Inr p \<Rightarrow> Op_update i p | Inl _ \<Rightarrow> Op_none)
      else Op_none)"
| "route_op url_ok b DELETE [s, i] = (if is_movies s then Op_remove i else Op_none)"
| "route_op url_ok b m p = Op_none"

definition request_op :: "(string \<Rightarrow> bool) \<Rightarrow> request \<Rightarrow> abs_op" where
  "request_op url_ok r =
     (case parse_body (rbody r) of
        None \<Rightarrow> Op_none
      | Some b \<Rightarrow>
          if \<not> cors_origin (rorigin r) \<or> rmethod r = OPTIONS then Op_none
          else (case decode_path (rpath r) of
                  Inl i \<Rightarrow> Op_none
                | Inr p \<Rightarrow> route_op url_ok b (route_method (rmethod r)) p))"

text \<open>An insertion stores the new movie under the identifier drawn for the request.\<close>

fun apply_op :: "string \<Rightarrow> abs_op \<Rightarrow> (string \<rightharpoonup> movie) \<Rightarrow> (string \<rightharpoonup> movie)" where
  "apply_op u Op_none M = M"
| "apply_op u (Op_insert d) M = M(u \<mapsto> new_movie u d)"
| "apply_op u (Op_update i p) M = (case M i of None \<Rightarrow> M | Some m \<Rightarrow> M(i \<mapsto> patch_movie p m))"
| "apply_op u (Op_remove i) M = M(i := None)"

section \<open>Example requests\<close>

text \<open>The creation request of the spec's example scenario, sent from an allowed origin,
  and requests that get or delete a movie by its identifier without an \<open>Origin\<close> header.\<close>

definition post_dune :: request where
  "post_dune = \<lparr>rmethod = POST, rpath = [''movies''], rquery = [],
     rbody = JsonText (JObj dune_members), rorigin = Some ''http://localhost:3000''\<rparr>"

definition get_req :: "string \<Rightarrow> request" where
  "get_req i = \<lparr>rmethod = GET, rpath = [''movies'', i], rquery = [], rbody = NoBody, rorigin = None\<rparr>"

definition delete_req :: "string \<Rightarrow> request" where
  "delete_req i = \<lparr>rmethod = DELETE, rpath = [''movies'', i], rquery = [], rbody = NoBody, rorigin = None\<rparr>"

text \<open>\<open>POST /movies\<close> with a JSON object as body, without an \<open>Origin\<close> header.\<close>

definition post_req :: "(string \<times> json) list \<Rightarrow> request" where
  "post_req kvs = \<lparr>rmethod = POST, rpath = [''movies''], rquery = [], rbody = JsonText (JObj kvs), rorigin = None\<rparr>"

text \<open>\<open>PATCH /movies/:id\<close> with a JSON body, without an \<open>Origin\<close> header.\<close>

definition patch_req :: "string \<Rightarrow> json \<Rightarrow> request" where
  "patch_req i b = \<lparr>rmethod = PATCH, rpath = [''movies'', i], rquery = [], rbody = JsonText b, rorigin = None\<rparr>"

text \<open>\<open>GET /movies?genre=g1&genre=g2...\<close> from the first allowed origin.\<close>

definition genre_req :: "string list \<Rightarrow> request" where
  "genre_req gs = \<lparr>rmethod = GET, rpath = [''movies''], rquery = map (Pair ''genre'') gs, rbody = NoBody,
     rorigin = Some ''http://localhost:3000''\<rparr>"

declare serve_def [handler_simps] route_method_def [handler_simps] cors_origin_def [handler_simps] accepted_origins_def [handler_simps]
  is_movies_def [handler_simps] not_found_def [handler_simps] decode_path_def [handler_simps]

section \<open>Lemmas\<close>

text \<open>What it takes to follow a request through the middleware to its route.\<close>

lemmas serve_route_simps = serve_def route_method_def cors_origin_def accepted_origins_def is_movies_def
  not_found_def decode_path_def js_lower_simps

lemma dispatch_store:
  "snd (dispatch url_ok u q b meth p ms) = ms \<or>
   snd (dispatch url_ok u q b meth p ms) = snd (handle_create url_ok u b ms) \<or>
   (\<exists>i. snd (dispatch url_ok u q b meth p ms) = snd (handle_patch url_ok i b ms)) \<or>
   (\<exists>i. snd (dispatch url_ok u q b meth p ms) = snd (handle_delete i ms))"
  by (induction url_ok u q b meth p ms rule: dispatch.induct)
    (auto simp: not_found_def prod.case_eq_if split: sum.splits js_error.splits)

lemma serve_store:
  "snd (serve url_ok u r ms) = ms \<or>
   (\<exists>b. snd (serve url_ok u r ms) = snd (handle_create url_ok u b ms)) \<or>
   (\<exists>i b. snd (serve url_ok u r ms) = snd (handle_patch url_ok i b ms)) \<or>
   (\<exists>i. snd (serve url_ok u r ms) = snd (handle_delete i ms))"
proof (cases "parse_body (rbody r)")
  case None
  then show ?thesis by (simp add: serve_def)
next
  case (Some b)
  show ?thesis
  proof (cases "decode_path (rpath r)")
    case (Inl i)
    with Some show ?thesis by (simp add: serve_def)
  next
    case (Inr p)
    from dispatch_store [of url_ok u "rquery r" b "route_method (rmethod r)" p ms] Some Inr show ?thesis
      by (auto simp: serve_def)
  qed
qed

text \<open>C17: one request changes the size of the collection by at most one: create adds one
  movie, delete removes one, every other request keeps the size.\<close>

theorem serve_length_bounds:
  "length ms - 1 \<le> length (snd (serve url_ok u r ms)) \<and> length (snd (serve url_ok u r ms)) \<le> Suc (length ms)"
  using serve_store [of url_ok u r ms]
  by (auto simp: length_handle_create length_handle_patch length_handle_delete split: sum.split)

lemma serve_store_wf:
  assumes "store_wf url_ok ms" and "u \<notin> set (ids ms)"
  shows "store_wf url_ok (snd (serve url_ok u r ms))"
  using serve_store [of url_ok u r ms] assms store_wf_create store_wf_patch store_wf_delete
  by auto

text \<open>C1: in every collection the running service reaches from a seed collection with unique ids and valid records, ids stay unique and every record satisfies the schema, provided each UUID drawn is not already an id.\<close>

theorem reachable_store_wf:
  assumes "store_wf url_ok seed" and "reachable url_ok seed ms"
  shows "store_wf url_ok ms"
  using assms(2)
proof (induction rule: reachable.induct)
  case seed
  show ?case by (rule assms(1))
next
  case (step ms r out ms')
  from step.hyps(2) show ?case
  proof cases
    case (serve_fresh u)
    with step.IH serve_store_wf [of url_ok ms u r] show ?thesis by simp
  qed
qed

lemma handle_create_Inl: "validateMovie url_ok b = Inl iss \<Longrightarrow> snd (handle_create url_ok x b ms) = ms"
  by (simp add: handle_create_def)

lemma handle_patch_Inl: "validatePartial url_ok b = Inl iss \<Longrightarrow> snd (handle_patch url_ok i b ms) = ms"
  by (simp add: handle_patch_def)

lemma dispatch_store_map:
  assumes "distinct (ids ms)" and "u \<notin> set (ids ms)"
  shows "store_map (snd (dispatch url_ok u q b meth p ms)) = apply_op u (route_op url_ok b meth p) (store_map ms)"
  using assms
  by (induction url_ok u q b meth p ms rule: dispatch.induct)
    (auto simp: not_found_def prod.case_eq_if store_map_create store_map_patch store_map_delete
      handle_create_Inl handle_patch_Inl split: sum.splits js_error.splits option.splits)

text \<open>C2: the service refines the map specification: from a collection with unique ids, with
  a drawn UUID not in use, the map from id to movie after any request is the request's
  operation applied to the map before it: the validated movie inserted under the UUID for a
  valid POST, a present movie updated for a valid PATCH, the id removed for DELETE, and no
  change for every other request (unparsable body, rejected origin, preflight, reads,
  invalid bodies, unknown routes).\<close>

theorem serve_refines_map:
  assumes "distinct (ids ms)" and "u \<notin> set (ids ms)"
  shows "store_map (snd (serve url_ok u r ms)) = apply_op u (request_op url_ok r) (store_map ms)"
  using dispatch_store_map [OF assms] by (simp add: serve_def request_op_def split: option.splits sum.splits)

text \<open>C23: the CORS origin callback accepts exactly a missing or empty Origin header and the three listed origins.\<close>

theorem cors_origin_iff:
  "cors_origin origin \<longleftrightarrow> origin \<in> {None, Some []} \<union> Some ` set accepted_origins"
  by (auto simp: cors_origin_def list_ex_iff)

text \<open>C24: a request whose origin the callback rejects never reaches a route handler and never changes the collection: it is answered 500 by Express's error handler (or 400 when its body is not JSON, which is parsed first).\<close>

theorem serve_cors_rejected:
  "\<not> cors_origin (rorigin r) \<Longrightarrow>
     serve url_ok u r ms \<in> {(Express_error 400 ''Unexpected token in JSON'', ms),
                              (Express_error 500 ''Not allowed by CORS'', ms)}"
  by (simp add: serve_def split: option.splits)

lemma dispatch_read_only:
  "meth \<notin> {POST, PATCH, DELETE} \<Longrightarrow> snd (dispatch url_ok u q b meth p ms) = ms"
  by (induction url_ok u q b meth p ms rule: dispatch.induct)
    (auto simp: not_found_def split: sum.splits js_error.splits)

text \<open>C25: only POST, PATCH and DELETE requests can change the collection; every other request leaves it as it was.\<close>

theorem serve_read_only:
  "rmethod r \<notin> {POST, PATCH, DELETE} \<Longrightarrow> snd (serve url_ok u r ms) = ms"
  by (simp add: serve_def route_method_def dispatch_read_only split: option.splits sum.splits)

lemma handle_create_error_keeps:
  "400 \<le> outcome_status (Handled (fst (handle_create url_ok u b ms))) \<Longrightarrow> snd (handle_create url_ok u b ms) = ms"
  by (auto simp: handle_create_def Let_def split: sum.splits)

lemma handle_patch_error_keeps:
  "400 \<le> outcome_status (Handled (fst (handle_patch url_ok i b ms))) \<Longrightarrow> snd (handle_patch url_ok i b ms) = ms"
  by (auto simp: handle_patch_def Let_def split: sum.splits if_splits)

lemma handle_delete_error_keeps:
  "400 \<le> outcome_status (Handled (fst (handle_delete i ms))) \<Longrightarrow> snd (handle_delete i ms) = ms"
  by (auto simp: handle_delete_def Let_def split: if_splits)

lemma dispatch_error_keeps:
  "400 \<le> outcome_status (fst (dispatch url_ok u q b meth p ms)) \<Longrightarrow> snd (dispatch url_ok u q b meth p ms) = ms"
  by (induction url_ok u q b meth p ms rule: dispatch.induct)
    (auto simp: not_found_def prod.case_eq_if handle_create_error_keeps handle_patch_error_keeps
      handle_delete_error_keeps split: sum.splits js_error.splits)

text \<open>C3: a request that fails leaves the collection as it was: whatever answers it with a
  status of 400 or more (a handler's 400 or 404, Express's 400, 404 or 500), nothing of the
  collection has changed, so a failing request never affects the ones after it.\<close>

theorem serve_error_unchanged:
  "400 \<le> outcome_status (fst (serve url_ok u r ms)) \<Longrightarrow> snd (serve url_ok u r ms) = ms"
  by (auto simp: serve_def dispatch_error_keeps split: option.splits sum.splits if_splits)




text \<open>C18: a movie created through the whole pipeline can be read back and deleted: from a
  collection with unique ids, a POST /movies of a valid body with a fresh UUID answers 201
  and the new movie, a GET of /movies/ followed by that UUID answers 200 with the same
  movie, and a DELETE of it answers 200 and gives back exactly the collection the POST
  started from.\<close>

theorem run_create_get_delete:
  assumes "distinct (ids ms)" and "u \<notin> set (ids ms)" and "CHR ''%'' \<notin> set u"
    and "validateMovie url_ok (JObj kvs) = Inr d"
  shows "run url_ok [(u, post_req kvs), (u1, get_req u), (u2, delete_req u)] ms =
           ([Handled (Resp 201 (One (new_movie u d))), Handled (Resp 200 (One (new_movie u d))),
             Handled (Resp 200 (Message ''Movie deleted''))], ms)"
proof -
  let ?m = "new_movie u d"
  have p: "serve url_ok u (post_req kvs) ms = (Handled (Resp 201 (One ?m)), ms @ [?m])"
    using assms(4) by (simp add: post_req_def handler_simps handle_create_def Let_def js_lower_simps)
  have "u \<notin> set (ids ms)" by (rule assms(2))
  then have nf: "\<not> list_ex (\<lambda>m. movie_id m = u) ms" by (auto simp: ids_def list_ex_iff)
  then have fi: "find_idx (\<lambda>m. movie_id m = u) (ms @ [?m]) = Some (length ms)"
    by (simp add: find_idx_append_Cons)
  have "keyed movie_id ms u = None" using assms(2) by (simp add: keyed_None_iff ids_def)
  then have "store_map (ms @ [?m]) u = Some ?m"
    using assms(2) by (simp add: store_map_keyed keyed_append_fresh ids_def map_add_def)
  then have "handle_get (ms @ [?m]) u = Resp 200 (One ?m)" by (simp add: handle_get_lookup)
  then have g: "serve url_ok u1 (get_req u) (ms @ [?m]) = (Handled (Resp 200 (One ?m)), ms @ [?m])"
    using assms(3) by (simp add: get_req_def serve_route_simps decode_no_pct)
  have "handle_delete u (ms @ [?m]) = (Resp 200 (Message ''Movie deleted''), ms)"
    using fi splice_one_append_Cons [of ms ?m "[]"] by (simp add: handle_delete_def js_findIndex_find_idx)
  then have d: "serve url_ok u2 (delete_req u) (ms @ [?m]) = (Handled (Resp 200 (Message ''Movie deleted'')), ms)"
    using assms(3) by (simp add: delete_req_def serve_route_simps decode_no_pct)
  show ?thesis using p g d by simp
qed

text \<open>C11: end to end, a GET /movies request whose query string repeats the genre parameter
  (?genre=a&genre=b), sent without a body from an allowed origin, fails with Express's 500
  as soon as some movie has a genre, and leaves the collection unchanged.\<close>

theorem serve_repeated_genre:
  assumes "rmethod r = GET" and "rpath r = [''movies'']" and "rbody r = NoBody"
    and "cors_origin (rorigin r)" and "2 \<le> length (query_values (rquery r) ''genre'')"
    and "list_ex (\<lambda>m. genre m \<noteq> []) ms"
  shows "serve url_ok u r ms = (Express_error 500 ''genre.toLowerCase is not a function'', ms)"
proof -
  obtain v w vs where vs: "query_values (rquery r) ''genre'' = v # w # vs"
    using assms(5) by (cases "query_values (rquery r) ''genre''" rule: remdups_adj.cases) auto
  then have q: "query_param (rquery r) ''genre'' = Some (QList (map QStr (v # w # vs)))"
    by (simp add: query_param_def)
  have "\<not> is_qstr (QList (map QStr (v # w # vs)))" by (simp add: is_qstr_def)
  with assms(6) have "handle_list ms (Some (QList (map QStr (v # w # vs)))) =
      Inl (TypeError ''genre.toLowerCase is not a function'')"
    by (simp add: handle_list_def filter_genre_not_string q_truthy_not_string)
  with assms(1-4) q show ?thesis
    by (simp add: serve_def route_method_def is_movies_def js_lower_simps decode_path_def)
qed

subsection \<open>Witnesses\<close>

lemma serve_post_dune:
  "serve whatwg_url_ok dune_id post_dune [godfather] =
     (Handled (Resp 201 (One (new_movie dune_id dune_data))), [godfather, new_movie dune_id dune_data])"
  by (simp add: post_dune_def handler_simps Let_def js_lower_simps schema_simps whatwg_url_simps
      dune_members_def dune_data_def)

lemma dune_id_fresh: "dune_id \<notin> set (ids [godfather])"
  by (simp add: ids_def godfather_def dune_id_def)

lemma gf_store_wf: "store_wf whatwg_url_ok [godfather]"
  by (simp add: handler_simps godfather_def data_wf_def whatwg_url_simps)

theorem reachable_store_wf_witness:
  "store_wf whatwg_url_ok [godfather] \<and>
   reachable whatwg_url_ok [godfather] [godfather, new_movie dune_id dune_data] \<and>
   store_wf whatwg_url_ok [godfather, new_movie dune_id dune_data]"
proof -
  have st: "server_step whatwg_url_ok [godfather] post_dune
              (Handled (Resp 201 (One (new_movie dune_id dune_data)))) [godfather, new_movie dune_id dune_data]"
    by (rule server_step.serve_fresh [OF dune_id_fresh serve_post_dune])
  have r: "reachable whatwg_url_ok [godfather] [godfather, new_movie dune_id dune_data]"
    by (rule reachable.step [OF reachable.seed st])
  show ?thesis using gf_store_wf r reachable_store_wf [OF gf_store_wf r] by simp
qed

theorem serve_cors_rejected_witness:
  "\<not> cors_origin (rorigin (post_dune\<lparr>rorigin := Some ''https://evil.example''\<rparr>)) \<and>
   serve whatwg_url_ok dune_id (post_dune\<lparr>rorigin := Some ''https://evil.example''\<rparr>) [godfather]
     \<in> {(Express_error 400 ''Unexpected token in JSON'', [godfather]),
        (Express_error 500 ''Not allowed by CORS'', [godfather])}"
proof -
  have h: "\<not> cors_origin (rorigin (post_dune\<lparr>rorigin := Some ''https://evil.example''\<rparr>))"
    by (simp add: handler_simps)
  show ?thesis using h serve_cors_rejected [OF h, of whatwg_url_ok dune_id "[godfather]"] by simp
qed

theorem serve_read_only_witness:
  "rmethod (get_req dune_id) \<notin> {POST, PATCH, DELETE} \<and>
   snd (serve whatwg_url_ok dune_id (get_req dune_id) [godfather]) = [godfather]"
proof -
  have h: "rmethod (get_req dune_id) \<notin> {POST, PATCH, DELETE}" by (simp add: get_req_def)
  show ?thesis using h serve_read_only [OF h, of whatwg_url_ok dune_id "[godfather]"] by simp
qed

theorem serve_repeated_genre_witness:
  "rmethod (genre_req [''crime'', ''drama'']) = GET \<and> rpath (genre_req [''crime'', ''drama'']) = [''movies''] \<and>
   rbody (genre_req [''crime'', ''drama'']) = NoBody \<and> cors_origin (rorigin (genre_req [''crime'', ''drama''])) \<and>
   2 \<le> length (query_values (rquery (genre_req [''crime'', ''drama''])) ''genre'') \<and>
   list_ex (\<lambda>m. genre m \<noteq> []) [godfather] \<and>
   serve whatwg_url_ok dune_id (genre_req [''crime'', ''drama'']) [godfather] =
     (Express_error 500 ''genre.toLowerCase is not a function'', [godfather])"
proof -
  have h: "rmethod (genre_req [''crime'', ''drama'']) = GET" "rpath (genre_req [''crime'', ''drama'']) = [''movies'']"
    "rbody (genre_req [''crime'', ''drama'']) = NoBody" "cors_origin (rorigin (genre_req [''crime'', ''drama'']))"
    "2 \<le> length (query_values (rquery (genre_req [''crime'', ''drama''])) ''genre'')"
    by (simp_all add: genre_req_def cors_origin_def accepted_origins_def query_values_def)
  have g: "list_ex (\<lambda>m. genre m \<noteq> []) [godfather]" by (simp add: godfather_def)
  show ?thesis using h g serve_repeated_genre [OF h g, of whatwg_url_ok dune_id] by simp
qed

theorem serve_refines_map_witness:
  "distinct (ids [godfather]) \<and> dune_id \<notin> set (ids [godfather]) \<and>
   request_op whatwg_url_ok post_dune = Op_insert dune_data \<and>
   store_map (snd (serve whatwg_url_ok dune_id post_dune [godfather])) =
     apply_op dune_id (request_op whatwg_url_ok post_dune) (store_map [godfather])"
proof -
  have d: "distinct (ids [godfather])" by (simp add: ids_def)
  have o: "request_op whatwg_url_ok post_dune = Op_insert dune_data"
    by (simp add: request_op_def post_dune_def handler_simps js_lower_simps schema_simps
        whatwg_url_simps dune_members_def dune_data_def)
  show ?thesis
    using serve_refines_map [OF d dune_id_fresh, of whatwg_url_ok post_dune] d dune_id_fresh o by simp
qed

theorem serve_error_unchanged_witness:
  "400 \<le> outcome_status (fst (serve whatwg_url_ok dune_id (delete_req ''does-not-exist'') [godfather])) \<and>
   snd (serve whatwg_url_ok dune_id (delete_req ''does-not-exist'') [godfather]) = [godfather]"
proof -
  have h: "400 \<le> outcome_status (fst (serve whatwg_url_ok dune_id (delete_req ''does-not-exist'') [godfather]))"
    by (simp add: delete_req_def handler_simps js_lower_simps godfather_def)
  show ?thesis using h serve_error_unchanged [OF h] by simp
qed



theorem run_create_get_delete_witness:
  "distinct (ids [godfather]) \<and> dune_id \<notin> set (ids [godfather]) \<and> CHR ''%'' \<notin> set dune_id \<and>
   validateMovie whatwg_url_ok (JObj dune_members) = Inr dune_data \<and>
   run whatwg_url_ok [(dune_id, post_req dune_members), (''u1'', get_req dune_id), (''u2'', delete_req dune_id)] [godfather] =
     ([Handled (Resp 201 (One (new_movie dune_id dune_data))), Handled (Resp 200 (One (new_movie dune_id dune_data))),
       Handled (Resp 200 (Message ''Movie deleted''))], [godfather])"
proof -
  have h: "distinct (ids [godfather])" "dune_id \<notin> set (ids [godfather])" "CHR ''%'' \<notin> set dune_id"
    by (simp_all add: ids_def godfather_def dune_id_def)
  have v: "validateMovie whatwg_url_ok (JObj dune_members) = Inr dune_data"
    by (simp add: dune_members_def dune_data_def schema_simps whatwg_url_simps)
  show ?thesis using h v run_create_get_delete [OF h v, of "''u1''" "''u2''"] by simp
qed

end
