(* ===== verification/Response.thy ===== *)
theory Response
  imports Server
begin

text \<open>
  What \<open>res.json\<close> sends in src/app.js: the JSON of a movie (\<open>{id, ...result.data}\<close>,
  the identifier first and the properties in the schema's order), of the \<open>{message}\<close>
  objects, and of the 400 body \<open>{error: JSON.parse(result.error.message)}\<close>, whose
  array holds one object per zod issue (\<open>result.error.message\<close> is
  \<open>JSON.stringify\<close> of the issues, so parsing it gives their JSON back). An issue
  object holds its code's own members, \<open>path\<close> and \<open>message\<close>, in the order
  zod creates them. The lemmas relate
  the status of every handled response to the shape of its body, as the interface
  table of the spec lists them, and show that a stored movie printed this way is
  again a valid creation body.
\<close>

section \<open>JSON of response bodies\<close>

fun path_json :: "path_elem \<Rightarrow> json" where
  "path_json (PKey k) = JStr k"
| "path_json (PIdx i) = JNum (of_nat i)"

text \<open>The members of an issue in the order zod 3 creates them: \<open>makeIssue\<close> returns
  \<open>{...issueData, path, message}\<close>, where \<open>issueData\<close> is the object literal of the
  place that raised the issue. The checks of \<open>z.number()\<close> and \<open>z.string()\<close>
  (\<open>.int()\<close>, \<open>.min()\<close>, \<open>.max()\<close>, \<open>.positive()\<close>, \<open>.url()\<close>) put a
  \<open>message\<close> key in that literal (\<open>message: check.message\<close>), so their \<open>message\<close>
  comes before \<open>path\<close>; the type checks and the enum do not, so theirs comes after.\<close>

fun code_members :: "issue_code \<Rightarrow> (string \<times> json) list" where
  "code_members (Invalid_type e r) =
     [(''code'', JStr ''invalid_type''), (''expected'', JStr e), (''received'', JStr r)]"
| "code_members Not_int =
     [(''code'', JStr ''invalid_type''), (''expected'', JStr ''integer''), (''received'', JStr ''float'')]"
| "code_members (Enum_type opts r) =
     [(''expected'', JStr (join_values opts)), (''received'', JStr r), (''code'', JStr ''invalid_type'')]"
| "code_members (Invalid_enum_value opts r) =
     [(''received'', JStr r), (''code'', JStr ''invalid_enum_value''), (''options'', JArr (map JStr opts))]"
| "code_members (Too_small b incl) =
     [(''code'', JStr ''too_small''), (''minimum'', JNum (of_int b)), (''type'', JStr ''number''),
      (''inclusive'', JBool incl), (''exact'', JBool False)]"
| "code_members (Too_big b incl) =
     [(''code'', JStr ''too_big''), (''maximum'', JNum (of_int b)), (''type'', JStr ''number''),
      (''inclusive'', JBool incl), (''exact'', JBool False)]"
| "code_members (Invalid_string v) = [(''validation'', JStr v), (''code'', JStr ''invalid_string'')]"

fun from_check :: "issue_code \<Rightarrow> bool" where
  "from_check (Invalid_type e r) = False"
| "from_check Not_int = True"
| "from_check (Enum_type opts r) = False"
| "from_check (Invalid_enum_value opts r) = False"
| "from_check (Too_small b incl) = True"
| "from_check (Too_big b incl) = True"
| "from_check (Invalid_string v) = True"

definition issue_json :: "issue \<Rightarrow> json" where
  "issue_json i =
     JObj (code_members (icode i) @
           (if from_check (icode i)
            then [(''message'', JStr (imessage i)), (''path'', JArr (map path_json (ipath i)))]
            else [(''path'', JArr (map path_json (ipath i))), (''message'', JStr (imessage i))]))"

definition movie_json :: "movie \<Rightarrow> json" where
  "movie_json m = JObj ((''id'', JStr (movie_id m)) # data_members m)"

fun body_json :: "body \<Rightarrow> json" where
  "body_json (Movies ms) = JArr (map movie_json ms)"
| "body_json (One m) = movie_json m"
| "body_json (Message s) = JObj [(''message'', JStr s)]"
| "body_json (Errors iss) = JObj [(''error'', JArr (map issue_json iss))]"

section \<open>Response headers\<close>

text \<open>
  Express keeps its settings in \<open>app.settings\<close>; \<open>x-powered-by\<close> is enabled by default,
  and then its first middleware sets \<open>X-Powered-By: Express\<close> on every response. Line 30
  of src/app.js disables it.
\<close>

record app_settings =
  x_powered_by :: bool

definition express_defaults :: app_settings where
  "express_defaults = \<lparr>x_powered_by = True\<rparr>"

definition app_disable_x_powered_by :: "app_settings \<Rightarrow> app_settings" where
  "app_disable_x_powered_by st = st\<lparr>x_powered_by := False\<rparr>"

definition app_config :: app_settings where
  "app_config = app_disable_x_powered_by express_defaults"

type_synonym headers = "(string \<times> string) list"

definition powered_by_header :: "app_settings \<Rightarrow> headers" where
  "powered_by_header st = (if x_powered_by st then [(''X-Powered-By'', ''Express'')] else [])"

text \<open>
  What the \<open>cors\<close> middleware sets once the origin callback allowed the request: as the
  callback answers \<open>true\<close>, the request's origin is reflected in
  \<open>Access-Control-Allow-Origin\<close> (a header whose value would be empty or missing is
  not set), with \<open>Vary: Origin\<close>. A preflight also lists the default methods and, with
  no \<open>allowedHeaders\<close> configured, varies on \<open>Access-Control-Request-Headers\<close> (whose
  value, reflected when the request has one, is not modelled); it ends with 204 and an
  empty body.
\<close>

definition allow_origin_header :: "string option \<Rightarrow> headers" where
  "allow_origin_header origin =
     (case origin of None \<Rightarrow> [] | Some s \<Rightarrow> if s = [] then [] else [(''Access-Control-Allow-Origin'', s)])"

definition cors_headers :: "string option \<Rightarrow> headers" where
  "cors_headers origin = allow_origin_header origin @ [(''Vary'', ''Origin'')]"

definition preflight_headers :: "string option \<Rightarrow> headers" where
  "preflight_headers origin =
     allow_origin_header origin @
     [(''Vary'', ''Origin, Access-Control-Request-Headers''),
      (''Access-Control-Allow-Methods'', ''GET,HEAD,PUT,PATCH,POST,DELETE''), (''Content-Length'', ''0'')]"

text \<open>\<open>res.json\<close> sets the JSON content type; Express's final handler answers its errors with
  an HTML page and security headers, keeping the headers already set.\<close>

definition json_headers :: headers where
  "json_headers = [(''Content-Type'', ''application/json; charset=utf-8'')]"

definition error_page_headers :: headers where
  "error_page_headers =
     [(''Content-Security-Policy'', ''default-src '' @ [CHR 0x27] @ ''none'' @ [CHR 0x27]),
      (''X-Content-Type-Options'', ''nosniff''), (''Content-Type'', ''text/html; charset=utf-8'')]"

text \<open>The headers of the response to a request, following the middleware order of
  src/app.js: \<open>express.json()\<close> fails before \<open>cors\<close> runs, a rejected origin fails inside
  it, everything after it carries its headers.\<close>

definition response_headers :: "app_settings \<Rightarrow> request \<Rightarrow> outcome \<Rightarrow> headers" where
  "response_headers st r out =
     powered_by_header st @
     (case parse_body (rbody r) of
        None \<Rightarrow> error_page_headers
      | Some _ \<Rightarrow>
          if \<not> cors_origin (rorigin r) then error_page_headers
          else (case out of
                  Preflight_ok \<Rightarrow> preflight_headers (rorigin r)
                | Handled _ \<Rightarrow> cors_headers (rorigin r) @ json_headers
                | Express_error _ _ \<Rightarrow> cors_headers (rorigin r) @ error_page_headers))"

section \<open>Lemmas\<close>

text \<open>The bodies each status comes with, for every request a route handles.\<close>

definition resp_shape :: "nat \<Rightarrow> body \<Rightarrow> bool" where
  "resp_shape st b \<longleftrightarrow>
     (st = 400 \<and> (\<exists>iss. iss \<noteq> [] \<and> b = Errors iss)) \<or>
     (st = 404 \<and> b = Message ''Movie not found'') \<or>
     (st = 201 \<and> (\<exists>m. b = One m)) \<or>
     (st = 200 \<and> (\<forall>iss. b \<noteq> Errors iss))"

lemma handle_create_shape: "fst (handle_create url_ok u b ms) = Resp st bd \<Longrightarrow> resp_shape st bd"
  by (auto simp: handle_create_def resp_shape_def Let_def dest: validateMovie_Inl_nonempty
      split: sum.splits)

lemma handle_patch_shape: "fst (handle_patch url_ok i b ms) = Resp st bd \<Longrightarrow> resp_shape st bd"
  by (auto simp: handle_patch_def resp_shape_def Let_def dest: validatePartial_Inl_nonempty
      split: sum.splits if_splits)

lemma handle_delete_shape: "fst (handle_delete i ms) = Resp st bd \<Longrightarrow> resp_shape st bd"
  by (auto simp: handle_delete_def resp_shape_def Let_def split: if_splits)

lemma handle_get_shape: "handle_get ms i = Resp st bd \<Longrightarrow> resp_shape st bd"
  by (auto simp: handle_get_def resp_shape_def split: option.splits)

lemma handle_list_shape: "handle_list ms q = Inr (Resp st bd) \<Longrightarrow> resp_shape st bd"
  by (auto simp: handle_list_def resp_shape_def split: option.splits if_splits sum.splits)

lemma dispatch_shape:
  "fst (dispatch url_ok u q b meth p ms) = Handled (Resp st bd) \<Longrightarrow> resp_shape st bd"
proof (induction url_ok u q b meth p ms rule: dispatch.induct)
  case (1 url_ok u q b ms)
  then show ?case by (auto simp: handle_root_def resp_shape_def)
next
  case (2 url_ok u q b s ms)
  then show ?case
    by (auto simp: not_found_def intro: handle_list_shape split: if_splits sum.splits js_error.splits)
qed (auto simp: not_found_def prod.case_eq_if intro: handle_get_shape handle_create_shape
      handle_patch_shape handle_delete_shape split: if_splits)

lemma serve_dispatch:
  "fst (serve url_ok u r ms) = Handled resp \<Longrightarrow>
     \<exists>b p. fst (dispatch url_ok u (rquery r) b (route_method (rmethod r)) p ms) = Handled resp"
  by (auto simp: serve_def split: option.splits if_splits sum.splits)

section \<open>Properties\<close>

text \<open>C14: every response a route handler sends has the status and JSON body the interface
  table lists: 400 with {error: [...]} holding at least one issue object, 404 with
  {message: "Movie not found"}, 201 with the created record, and otherwise 200 with a body
  that is never an error object.\<close>

theorem serve_response_json:
  assumes "fst (serve url_ok u r ms) = Handled (Resp st b)"
  shows "(st = 400 \<and> (\<exists>iss. iss \<noteq> [] \<and> body_json b = JObj [(''error'', JArr (map issue_json iss))])) \<or>
         (st = 404 \<and> body_json b = JObj [(''message'', JStr ''Movie not found'')]) \<or>
         (st = 201 \<and> (\<exists>m. body_json b = movie_json m)) \<or>
         (st = 200 \<and> (\<forall>j. body_json b \<noteq> JObj [(''error'', j)]))"
proof -
  from serve_dispatch [OF assms] obtain bj p
    where "fst (dispatch url_ok u (rquery r) bj (route_method (rmethod r)) p ms) = Handled (Resp st b)" by blast
  then have "resp_shape st b" by (rule dispatch_shape)
  then show ?thesis
    by (cases b) (auto simp: resp_shape_def movie_json_def data_members_def)
qed

text \<open>C19: a stored movie as the service prints it, {id, ...}, is again a valid creation
  body: validateMovie drops the id member and gives back the movie's data.\<close>

theorem movie_json_revalidates:
  "data_wf url_ok m \<Longrightarrow> validateMovie url_ok (movie_json m) = Inr (movie_data.truncate m)"
  by (simp add: movie_json_def validateMovie_def movie_schema_Inr_iff data_members_def data_wf_def
      movie_data.defs)

lemma header_name_not_in [simp]:
  "(''Access-Control-Allow-Origin'', v) \<notin> set (powered_by_header st)"
  "(''Access-Control-Allow-Origin'', v) \<notin> set error_page_headers"
  "(''Access-Control-Allow-Origin'', v) \<notin> set json_headers"
  "(''X-Powered-By'', w) \<notin> set error_page_headers"
  "(''X-Powered-By'', w) \<notin> set json_headers"
  "(''X-Powered-By'', w) \<notin> set (allow_origin_header origin)"
  by (simp_all add: powered_by_header_def error_page_headers_def json_headers_def
      allow_origin_header_def split: option.split)

lemma allow_origin_member:
  "(''Access-Control-Allow-Origin'', v) \<in> set (allow_origin_header origin) \<longleftrightarrow> origin = Some v \<and> v \<noteq> []"
  by (cases origin) (auto simp: allow_origin_header_def)

lemma cors_headers_member:
  "(''Access-Control-Allow-Origin'', v) \<in> set (cors_headers origin) \<longleftrightarrow> origin = Some v \<and> v \<noteq> []"
  "(''Access-Control-Allow-Origin'', v) \<in> set (preflight_headers origin) \<longleftrightarrow> origin = Some v \<and> v \<noteq> []"
  "(''X-Powered-By'', w) \<notin> set (cors_headers origin)"
  "(''X-Powered-By'', w) \<notin> set (preflight_headers origin)"
  by (simp_all add: cors_headers_def preflight_headers_def allow_origin_member)

lemma allow_origin_in_headers:
  "(''Access-Control-Allow-Origin'', v) \<in> set (response_headers st r out) \<longleftrightarrow>
     parse_body (rbody r) \<noteq> None \<and> cors_origin (rorigin r) \<and> rorigin r = Some v \<and> v \<noteq> []"
proof (cases "parse_body (rbody r)")
  case None
  then show ?thesis by (simp add: response_headers_def)
next
  case (Some b)
  then show ?thesis
    by (cases out) (simp_all add: response_headers_def cors_headers_member)
qed

lemma powered_by_in_headers:
  "(''X-Powered-By'', w) \<in> set (response_headers st r out) \<longleftrightarrow> x_powered_by st \<and> w = ''Express''"
proof (cases "parse_body (rbody r)")
  case None
  then show ?thesis by (auto simp: response_headers_def powered_by_header_def)
next
  case (Some b)
  then show ?thesis
    by (cases out) (auto simp: response_headers_def powered_by_header_def cors_headers_member)
qed

lemma cors_origin_listed: "cors_origin (Some v) \<and> v \<noteq> [] \<longleftrightarrow> v \<in> set accepted_origins"
  by (auto simp: cors_origin_def accepted_origins_def)

text \<open>C15: what a browser sees of the CORS policy: no response carries X-Powered-By, and a
  response carries Access-Control-Allow-Origin: o exactly when the request came with
  Origin o, o is one of the three listed origins, and its body could be parsed.\<close>

theorem response_headers_cors:
  "(''X-Powered-By'', v) \<notin> set (response_headers app_config r (fst (serve url_ok u r ms))) \<and>
   ((''Access-Control-Allow-Origin'', origin) \<in> set (response_headers app_config r (fst (serve url_ok u r ms)))
      \<longleftrightarrow> parse_body (rbody r) \<noteq> None \<and> rorigin r = Some origin \<and> origin \<in> set accepted_origins)"
  by (auto simp: powered_by_in_headers allow_origin_in_headers app_config_def app_disable_x_powered_by_def
      express_defaults_def cors_origin_listed [symmetric])

section \<open>Witnesses\<close>

lemma serve_delete_missing:
  "fst (serve whatwg_url_ok dune_id (delete_req dune_id) [godfather]) =
     Handled (Resp 404 (Message ''Movie not found''))"
  by (simp add: delete_req_def handler_simps js_lower_simps godfather_def dune_id_def)

theorem serve_response_json_witness:
  "fst (serve whatwg_url_ok dune_id (delete_req dune_id) [godfather]) =
     Handled (Resp 404 (Message ''Movie not found'')) \<and>
   body_json (Message ''Movie not found'') = JObj [(''message'', JStr ''Movie not found'')]"
  using serve_response_json [OF serve_delete_missing] serve_delete_missing by simp

theorem movie_json_revalidates_witness:
  "data_wf whatwg_url_ok godfather \<and>
   validateMovie whatwg_url_ok (movie_json godfather) = Inr (movie_data.truncate godfather)"
proof -
  have h: "data_wf whatwg_url_ok godfather"
    using gf_store_wf by (simp add: store_wf_def)
  show ?thesis using h movie_json_revalidates [OF h] by simp
qed

theorem response_headers_cors_witness:
  "(''X-Powered-By'', ''Express'') \<notin> set (response_headers app_config post_dune
      (fst (serve whatwg_url_ok dune_id post_dune [godfather]))) \<and>
   (''Access-Control-Allow-Origin'', ''http://localhost:3000'') \<in> set (response_headers app_config post_dune
      (fst (serve whatwg_url_ok dune_id post_dune [godfather])))"
proof -
  have "parse_body (rbody post_dune) \<noteq> None \<and> rorigin post_dune = Some ''http://localhost:3000'' \<and>
      ''http://localhost:3000'' \<in> set accepted_origins"
    by (simp add: post_dune_def accepted_origins_def)
  then show ?thesis
    using response_headers_cors [of "''Express''" post_dune whatwg_url_ok dune_id "[godfather]"
        "''http://localhost:3000''"] by blast
qed

end
