(* ===== verification/Startup.thy ===== *)
theory Startup
  imports Schema
begin

text \<open>
  Start-up of src/app.js (lines 108--113): \<open>const PORT = process.env.PORT ?? 3333\<close>,
  then \<open>app.listen(PORT, cb)\<close>, which is \<open>http.createServer(app).listen(PORT, cb)\<close>.
  An environment variable is a string when set, so \<open>??\<close> gives the number 3333 only
  when \<open>PORT\<close> is unset; a set \<open>PORT\<close>, even empty, is passed on as a string.
  Node's \<open>net.Server.listen\<close> then reads a string argument as the path of a pipe when
  \<open>Number(s)\<close> is not a number \<open>\<ge> 0\<close> (\<open>isPipeName\<close>), and otherwise as a port that
  \<open>validatePort\<close> checks: not blank, \<open>Number(s)\<close> an integer in \<open>[0, 2^32)\<close>, at
  most 65535; a failed check throws \<open>ERR_SOCKET_BAD_PORT\<close> out of \<open>app.listen\<close>, so the
  process stops before serving. The callback logs the listening line.

  \<open>str_to_number\<close> is ECMAScript's \<open>StringToNumber\<close> (the conversion \<open>Number(s)\<close>):
  surrounding white space is trimmed, the empty string is 0, \<open>0b\<close>/\<open>0o\<close>/\<open>0x\<close>
  literals are read in their radix, a signed decimal literal (digits, an optional
  fraction, an optional exponent, or \<open>Infinity\<close>) is read as its value, anything else is
  \<open>NaN\<close>. Values are exact rationals: IEEE rounding (more than 15 significant digits,
  exponents beyond the range of doubles) is not modelled, nor are the non-ASCII white
  space characters.
\<close>

section \<open>Number(string)\<close>

datatype js_number = JSFinite rat | JSPosInf | JSNegInf | JSNaN

definition js_whitespace :: "char \<Rightarrow> bool" where
  "js_whitespace c = (c \<in> {CHR 0x09, CHR 0x0A, CHR 0x0B, CHR 0x0C, CHR 0x0D, CHR 0x20})"

definition js_trim :: "string \<Rightarrow> string" where
  "js_trim s = rev (dropWhile js_whitespace (rev (dropWhile js_whitespace s)))"

text \<open>The value of a digit in a radix up to 36, letters in either case.\<close>

definition digit_in :: "nat \<Rightarrow> char \<Rightarrow> nat option" where
  "digit_in r c =
     (let n = (of_char c :: nat);
          d = (if 48 \<le> n \<and> n \<le> 57 then n - 48
               else if 97 \<le> n \<and> n \<le> 122 then n - 87
               else if 65 \<le> n \<and> n \<le> 90 then n - 55 else r)
      in if d < r then Some d else None)"

fun radix_value :: "nat \<Rightarrow> nat \<Rightarrow> string \<Rightarrow> nat option" where
  "radix_value r acc [] = Some acc"
| "radix_value r acc (c # cs) =
     (case digit_in r c of None \<Rightarrow> None | Some d \<Rightarrow> radix_value r (acc * r + d) cs)"

text \<open>\<open>NonDecimalIntegerLiteral\<close>: \<open>0b\<close>, \<open>0o\<close> or \<open>0x\<close> (either case) and at least one digit.\<close>

fun non_decimal :: "string \<Rightarrow> nat option" where
  "non_decimal (c0 # x # ds) =
     (if c0 = CHR ''0'' \<and> ds \<noteq> [] then
        (if x \<in> {CHR ''b'', CHR ''B''} then radix_value 2 0 ds
         else if x \<in> {CHR ''o'', CHR ''O''} then radix_value 8 0 ds
         else if x \<in> {CHR ''x'', CHR ''X''} then radix_value 16 0 ds else None)
      else None)"
| "non_decimal _ = None"

definition all_digits :: "string \<Rightarrow> bool" where
  "all_digits s = list_all is_ascii_digit s"

text \<open>\<open>m \<cdot> 10^e\<close> for an integer exponent.\<close>

definition scale10 :: "nat \<Rightarrow> int \<Rightarrow> rat" where
  "scale10 m e = (if 0 \<le> e then of_nat m * 10 ^ nat e else of_nat m / 10 ^ nat (- e))"

text \<open>The exponent part after \<open>e\<close>/\<open>E\<close>: an optional sign and at least one digit.\<close>

definition exponent_value :: "string \<Rightarrow> int option" where
  "exponent_value s =
     (let neg = (s \<noteq> [] \<and> hd s = CHR ''-'');
          ds = (if s \<noteq> [] \<and> hd s \<in> {CHR ''+'', CHR ''-''} then tl s else s)
      in if ds \<noteq> [] \<and> all_digits ds
         then Some (if neg then - int (digits_value ds) else int (digits_value ds)) else None)"

text \<open>\<open>StrUnsignedDecimalLiteral\<close>: \<open>Infinity\<close>, or digits with an optional fraction
  (one of the two non-empty) and an optional exponent.\<close>

definition unsigned_decimal :: "string \<Rightarrow> js_number" where
  "unsigned_decimal u =
     (if u = ''Infinity'' then JSPosInf
      else
        (let mant = takeWhile (\<lambda>c. c \<notin> {CHR ''e'', CHR ''E''}) u;
             ex = drop (Suc (length mant)) u;
             ip = takeWhile (\<lambda>c. c \<noteq> CHR ''.'') mant;
             fp = drop (Suc (length ip)) mant;
             e = (if length mant < length u then exponent_value ex else Some 0)
         in if ip @ fp \<noteq> [] \<and> all_digits ip \<and> all_digits fp \<and> e \<noteq> None
            then JSFinite (scale10 (digits_value (ip @ fp)) (the e - int (length fp)))
            else JSNaN))"

fun js_negate :: "js_number \<Rightarrow> js_number" where
  "js_negate (JSFinite q) = JSFinite (- q)"
| "js_negate JSPosInf = JSNegInf"
| "js_negate JSNegInf = JSPosInf"
| "js_negate JSNaN = JSNaN"

definition str_to_number :: "string \<Rightarrow> js_number" where
  "str_to_number s =
     (let t = js_trim s in
      if t = [] then JSFinite 0
      else case non_decimal t of
             Some n \<Rightarrow> JSFinite (of_nat n)
           | None \<Rightarrow>
               if hd t = CHR ''-'' then js_negate (unsigned_decimal (tl t))
               else if hd t = CHR ''+'' then unsigned_decimal (tl t)
               else unsigned_decimal t)"

section \<open>app.listen(PORT)\<close>

text \<open>The argument \<open>app.listen\<close> receives: the number 3333 or the string of the variable.\<close>

datatype port_arg = PNum nat | PStr string

definition port_setting :: "string option \<Rightarrow> port_arg" where
  "port_setting env = (case env of None \<Rightarrow> PNum 3333 | Some s \<Rightarrow> PStr s)"

datatype listen_target = Listen_port nat | Listen_pipe string

datatype startup_error = ERR_SOCKET_BAD_PORT port_arg

text \<open>\<open>toNumber(x)\<close> of Node's net module: \<open>Number(x) >= 0 ? Number(x) : false\<close>.\<close>

fun js_nonneg :: "js_number \<Rightarrow> bool" where
  "js_nonneg (JSFinite q) = (0 \<le> q)"
| "js_nonneg JSPosInf = True"
| "js_nonneg JSNegInf = False"
| "js_nonneg JSNaN = False"

definition is_pipe_name :: "port_arg \<Rightarrow> bool" where
  "is_pipe_name a = (case a of PStr s \<Rightarrow> \<not> js_nonneg (str_to_number s) | PNum _ \<Rightarrow> False)"

text \<open>\<open>validatePort(port)\<close>: \<open>+port !== (+port >>> 0)\<close> fails unless \<open>Number(port)\<close> is an
  integer in \<open>[0, 2^32)\<close>; then \<open>port > 0xFFFF\<close> fails; zero is allowed.\<close>

definition validate_port :: "port_arg \<Rightarrow> startup_error + nat" where
  "validate_port a =
     (case a of
        PNum n \<Rightarrow> if n \<le> 65535 then Inr n else Inl (ERR_SOCKET_BAD_PORT a)
      | PStr s \<Rightarrow>
          if js_trim s = [] then Inl (ERR_SOCKET_BAD_PORT a)
          else (case str_to_number s of
                  JSFinite q \<Rightarrow>
                    if js_is_integer q \<and> 0 \<le> q \<and> q < 2 ^ 32 \<and> q \<le> 65535 then Inr (nat \<lfloor>q\<rfloor>)
                    else Inl (ERR_SOCKET_BAD_PORT a)
                | _ \<Rightarrow> Inl (ERR_SOCKET_BAD_PORT a)))"

definition listen :: "port_arg \<Rightarrow> startup_error + listen_target" where
  "listen a =
     (case a of
        PStr s \<Rightarrow> if is_pipe_name a then Inr (Listen_pipe s) else map_sum id Listen_port (validate_port a)
      | PNum _ \<Rightarrow> map_sum id Listen_port (validate_port a))"

text \<open>The line the listen callback logs, with \<open>PORT\<close> as a template literal prints it.\<close>

definition port_text :: "port_arg \<Rightarrow> string" where
  "port_text a = (case a of PNum n \<Rightarrow> nat_digits n | PStr s \<Rightarrow> s)"

definition listen_message :: "port_arg \<Rightarrow> string" where
  "listen_message a = ''Server listening on port http://localhost:'' @ port_text a"

text \<open>Start-up from the value of \<open>PORT\<close>: the address listened on and the logged line,
  or the error \<open>app.listen\<close> throws.\<close>

definition startup :: "string option \<Rightarrow> startup_error + (listen_target \<times> string)" where
  "startup env =
     (let a = port_setting env in
      case listen a of Inl e \<Rightarrow> Inl e | Inr t \<Rightarrow> Inr (t, listen_message a))"

lemmas number_simps = str_to_number_def js_trim_def js_whitespace_def unsigned_decimal_def
  exponent_value_def all_digits_def is_ascii_digit_def scale10_def digit_in_def

section \<open>Lemmas\<close>

declare nat_digits.simps [simp del]

subsection \<open>Decimal digits read back\<close>

lemma of_char_decimal_digit: "k < 10 \<Longrightarrow> (of_char (decimal_digits ! k) :: nat) = 48 + k"
  by (auto simp: decimal_digits_def less_Suc_eq numeral_eq_Suc)

lemma digits_value_snoc: "digits_value (xs @ [c]) = digits_value xs * 10 + (of_char c - 48)"
  by (induction xs) (simp_all add: algebra_simps)

lemma nat_digits_digits: "all_digits (nat_digits n)"
proof (induction n rule: nat_digits.induct)
  case (1 n)
  have "(of_char (decimal_digits ! k) :: nat) \<le> 57" if "k < 10" for k
    using of_char_decimal_digit [OF that] that by simp
  with 1 show ?case
    by (subst nat_digits.simps) (auto simp: all_digits_def is_ascii_digit_def of_char_decimal_digit)
qed

lemma digits_value_nat_digits: "digits_value (nat_digits n) = n"
proof (induction n rule: nat_digits.induct)
  case (1 n)
  then show ?case
    by (subst nat_digits.simps) (simp add: digits_value_snoc of_char_decimal_digit)
qed

subsection \<open>Number(string) on digits, blanks and letters\<close>

lemma digit_char_classes:
  "is_ascii_digit c \<Longrightarrow> \<not> js_whitespace c \<and> c \<notin> {CHR ''e'', CHR ''E'', CHR ''.'', CHR ''+'', CHR ''-'',
     CHR ''b'', CHR ''B'', CHR ''o'', CHR ''O'', CHR ''x'', CHR ''X''}"
  by (auto simp: is_ascii_digit_def js_whitespace_def)

lemma dropWhile_none: "\<forall>x\<in>set xs. \<not> P x \<Longrightarrow> dropWhile P xs = xs"
  by (cases xs) auto

lemma takeWhile_all: "\<forall>x\<in>set xs. P x \<Longrightarrow> takeWhile P xs = xs"
  by (simp add: takeWhile_eq_all_conv)

lemma digit_not_space: "is_ascii_digit c \<Longrightarrow> \<not> js_whitespace c"
  by (simp add: digit_char_classes)

lemma js_trim_no_space: "\<forall>c\<in>set s. \<not> js_whitespace c \<Longrightarrow> js_trim s = s"
  by (simp add: js_trim_def dropWhile_none)

lemma js_trim_blank: "list_all js_whitespace s \<Longrightarrow> js_trim s = []"
  by (auto simp: js_trim_def list_all_iff dest: set_dropWhileD)

lemma unsigned_decimal_digits:
  assumes "all_digits s" and "s \<noteq> []"
  shows "unsigned_decimal s = JSFinite (of_nat (digits_value s))"
proof -
  from assms(1) have d: "\<forall>c\<in>set s. is_ascii_digit c" by (simp add: all_digits_def list_all_iff)
  then have e: "takeWhile (\<lambda>c. c \<notin> {CHR ''e'', CHR ''E''}) s = s"
    and p: "takeWhile (\<lambda>c. c \<noteq> CHR ''.'') s = s"
    using digit_char_classes by (simp_all add: takeWhile_all)
  have "s \<noteq> ''Infinity''"
    using d by (auto simp: is_ascii_digit_def)
  then have "unsigned_decimal s =
      (if s @ [] \<noteq> [] \<and> all_digits s \<and> all_digits [] \<and> Some (0::int) \<noteq> None
       then JSFinite (scale10 (digits_value (s @ [])) (the (Some 0) - int (length ([]::string))))
       else JSNaN)"
    unfolding unsigned_decimal_def Let_def e p by simp
  with assms show ?thesis by (simp add: scale10_def all_digits_def)
qed

lemma non_decimal_digits:
  assumes "all_digits s"
  shows "non_decimal s = None"
proof (cases s rule: non_decimal.cases)
  case (1 c0 x ds)
  with assms have "is_ascii_digit x" by (simp add: all_digits_def)
  from digit_char_classes [OF this]
  have "x \<notin> {CHR ''b'', CHR ''B'', CHR ''o'', CHR ''O'', CHR ''x'', CHR ''X''}" by simp
  with 1 show ?thesis by simp
qed simp_all

lemma str_to_number_digits:
  assumes "all_digits s" and "s \<noteq> []"
  shows "str_to_number s = JSFinite (of_nat (digits_value s))"
proof -
  from assms(1) have d: "\<forall>c\<in>set s. is_ascii_digit c" by (simp add: all_digits_def list_all_iff)
  then have "js_trim s = s" by (simp add: js_trim_no_space digit_not_space)
  moreover obtain c cs where s: "s = c # cs" using assms(2) by (cases s) auto
  moreover from d s have "is_ascii_digit c" by simp
  from digit_char_classes [OF this] have "c \<noteq> CHR ''-''" "c \<noteq> CHR ''+''" by simp_all
  ultimately show ?thesis
    using assms unsigned_decimal_digits [OF assms] non_decimal_digits [OF assms(1)]
    by (simp add: str_to_number_def)
qed

lemma str_to_number_nat_digits: "str_to_number (nat_digits n) = JSFinite (of_nat n)"
proof -
  have "nat_digits n \<noteq> []" by (subst nat_digits.simps) simp
  then show ?thesis
    using str_to_number_digits [OF nat_digits_digits] digits_value_nat_digits by simp
qed

lemma str_to_number_blank: "list_all js_whitespace s \<Longrightarrow> str_to_number s = JSFinite 0"
  by (simp add: str_to_number_def js_trim_blank)

lemma unsigned_decimal_no_digit:
  assumes "\<forall>c\<in>set s. \<not> is_ascii_digit c"
  shows "unsigned_decimal s = (if s = ''Infinity'' then JSPosInf else JSNaN)"
proof -
  define mant where "mant = takeWhile (\<lambda>c. c \<notin> {CHR ''e'', CHR ''E''}) s"
  define ip where "ip = takeWhile (\<lambda>c. c \<noteq> CHR ''.'') mant"
  define fp where "fp = drop (Suc (length ip)) mant"
  have m: "set mant \<subseteq> set s" by (auto simp: mant_def dest: set_takeWhileD)
  have "set ip \<subseteq> set mant" by (auto simp: ip_def dest: set_takeWhileD)
  moreover have "set fp \<subseteq> set mant" by (simp add: fp_def set_drop_subset)
  ultimately have sub: "set (ip @ fp) \<subseteq> set s" using m by auto
  have nd: "\<not> (ip @ fp \<noteq> [] \<and> all_digits ip \<and> all_digits fp)"
  proof
    assume h: "ip @ fp \<noteq> [] \<and> all_digits ip \<and> all_digits fp"
    then obtain x where x: "x \<in> set (ip @ fp)" by (cases "ip @ fp") auto
    with h have "is_ascii_digit x" by (auto simp: all_digits_def list_all_iff)
    with x sub assms show False by blast
  qed
  show ?thesis
  proof (cases "s = ''Infinity''")
    case True
    then show ?thesis by (simp add: unsigned_decimal_def)
  next
    case False
    have c: "\<not> (ip @ fp \<noteq> [] \<and> all_digits ip \<and> all_digits fp \<and>
        (if length mant < length s then exponent_value (drop (Suc (length mant)) s) else Some 0) \<noteq> None)"
      using nd by blast
    show ?thesis
      unfolding unsigned_decimal_def Let_def mant_def [symmetric] ip_def [symmetric] fp_def [symmetric]
      by (simp only: if_not_P [OF False] if_not_P [OF c])
  qed
qed

lemma alpha_not_digit: "is_ascii_alpha c \<Longrightarrow> \<not> is_ascii_digit c"
  by (auto simp: is_ascii_alpha_def is_ascii_digit_def Let_def)

lemma alpha_not_space: "is_ascii_alpha c \<Longrightarrow> \<not> js_whitespace c"
  by (auto simp: is_ascii_alpha_def js_whitespace_def Let_def)

lemma alpha_not_sign: "is_ascii_alpha c \<Longrightarrow> c \<noteq> CHR ''0'' \<and> c \<noteq> CHR ''-'' \<and> c \<noteq> CHR ''+''"
  by (auto simp: is_ascii_alpha_def Let_def)

lemma str_to_number_alpha:
  assumes "list_all is_ascii_alpha s" and "s \<noteq> []"
  shows "str_to_number s = (if s = ''Infinity'' then JSPosInf else JSNaN)"
proof -
  have a: "\<forall>c\<in>set s. is_ascii_alpha c" using assms(1) by (simp add: list_all_iff)
  then have t: "js_trim s = s" by (simp add: js_trim_no_space alpha_not_space)
  from a have nodig: "\<forall>c\<in>set s. \<not> is_ascii_digit c" by (simp add: alpha_not_digit)
  from a assms(2) have "is_ascii_alpha (hd s)" by simp
  from alpha_not_sign [OF this] have h: "hd s \<noteq> CHR ''0''" "hd s \<noteq> CHR ''-''" "hd s \<noteq> CHR ''+''"
    by simp_all
  have nd: "non_decimal s = None"
    using h(1) assms(2) by (cases s rule: non_decimal.cases) simp_all
  show ?thesis
    using assms(2) by (simp add: str_to_number_def t nd h(2,3) unsigned_decimal_no_digit [OF nodig])
qed

subsection \<open>Start-up on each kind of PORT value\<close>

lemma nat_digits_ne: "nat_digits n \<noteq> []"
  by (subst nat_digits.simps) simp

lemma js_trim_digits: "all_digits s \<Longrightarrow> js_trim s = s"
  by (simp add: js_trim_no_space digit_not_space all_digits_def list_all_iff)

lemma js_is_integer_of_nat: "js_is_integer (of_nat n)"
  by (simp add: js_is_integer_def)

lemma startup_PStr:
  "startup (Some s) =
     (if is_pipe_name (PStr s) then Inr (Listen_pipe s, listen_message (PStr s))
      else case validate_port (PStr s) of
             Inl e \<Rightarrow> Inl e
           | Inr n \<Rightarrow> Inr (Listen_port n, listen_message (PStr s)))"
  by (simp add: startup_def port_setting_def listen_def split: sum.split)

lemma validate_port_nat_digits:
  "validate_port (PStr (nat_digits n)) =
     (if n \<le> 65535 then Inr n else Inl (ERR_SOCKET_BAD_PORT (PStr (nat_digits n))))"
proof -
  have "(of_nat n :: rat) < 2 ^ 32" if "n \<le> 65535"
  proof -
    from that have "(of_nat n :: rat) \<le> 65535" by simp
    then show ?thesis by simp
  qed
  then show ?thesis
    using nat_digits_ne [of n]
    by (simp add: validate_port_def js_trim_digits nat_digits_digits str_to_number_nat_digits
        js_is_integer_of_nat)
qed

section \<open>Properties\<close>

text \<open>C34: at start-up, an unset PORT makes the service listen on port 3333; PORT set to the
  decimal digits of a number up to 65535 makes it listen on that port and log it; a larger
  number, or a PORT that is empty or blank, makes app.listen throw ERR_SOCKET_BAD_PORT, so the
  service never starts; a PORT made of letters (other than Infinity) is taken as the name of
  a pipe to listen on.\<close>

theorem startup_port:
  "startup None = Inr (Listen_port 3333, ''Server listening on port http://localhost:3333'') \<and>
   (n \<le> 65535 \<longrightarrow> startup (Some (nat_digits n)) =
      Inr (Listen_port n, ''Server listening on port http://localhost:'' @ nat_digits n)) \<and>
   (65535 < m \<longrightarrow> startup (Some (nat_digits m)) = Inl (ERR_SOCKET_BAD_PORT (PStr (nat_digits m)))) \<and>
   (list_all js_whitespace s \<longrightarrow> startup (Some s) = Inl (ERR_SOCKET_BAD_PORT (PStr s))) \<and>
   (t \<noteq> [] \<and> list_all is_ascii_alpha t \<and> t \<noteq> ''Infinity'' \<longrightarrow>
      startup (Some t) = Inr (Listen_pipe t, ''Server listening on port http://localhost:'' @ t))"
proof (intro conjI impI)
  show "startup None = Inr (Listen_port 3333, ''Server listening on port http://localhost:3333'')"
    by (simp add: startup_def port_setting_def listen_def validate_port_def listen_message_def
        port_text_def nat_digits.simps decimal_digits_def)
next
  assume "n \<le> 65535"
  then show "startup (Some (nat_digits n)) =
      Inr (Listen_port n, ''Server listening on port http://localhost:'' @ nat_digits n)"
    by (simp add: startup_PStr is_pipe_name_def str_to_number_nat_digits validate_port_nat_digits
        listen_message_def port_text_def)
next
  assume "65535 < m"
  then show "startup (Some (nat_digits m)) = Inl (ERR_SOCKET_BAD_PORT (PStr (nat_digits m)))"
    by (simp add: startup_PStr is_pipe_name_def str_to_number_nat_digits validate_port_nat_digits)
next
  assume "list_all js_whitespace s"
  then show "startup (Some s) = Inl (ERR_SOCKET_BAD_PORT (PStr s))"
    by (simp add: startup_PStr is_pipe_name_def str_to_number_blank validate_port_def js_trim_blank)
next
  assume "t \<noteq> [] \<and> list_all is_ascii_alpha t \<and> t \<noteq> ''Infinity''"
  then show "startup (Some t) = Inr (Listen_pipe t, ''Server listening on port http://localhost:'' @ t)"
    by (simp add: startup_PStr is_pipe_name_def str_to_number_alpha listen_message_def port_text_def)
qed

section \<open>Witnesses\<close>

theorem startup_port_witness:
  "startup None = Inr (Listen_port 3333, ''Server listening on port http://localhost:3333'') \<and>
   8080 \<le> (65535 :: nat) \<and>
   startup (Some ''8080'') = Inr (Listen_port 8080, ''Server listening on port http://localhost:8080'') \<and>
   65535 < (70000 :: nat) \<and> startup (Some ''70000'') = Inl (ERR_SOCKET_BAD_PORT (PStr ''70000'')) \<and>
   list_all js_whitespace '''' \<and> startup (Some '''') = Inl (ERR_SOCKET_BAD_PORT (PStr '''')) \<and>
   ''abc'' \<noteq> [] \<and> list_all is_ascii_alpha ''abc'' \<and> ''abc'' \<noteq> ''Infinity'' \<and>
   startup (Some ''abc'') = Inr (Listen_pipe ''abc'', ''Server listening on port http://localhost:abc'')"
proof -
  have d: "nat_digits 8080 = ''8080''" "nat_digits 70000 = ''70000''"
    by (simp_all add: nat_digits.simps decimal_digits_def)
  have a: "list_all is_ascii_alpha ''abc''" by (simp add: is_ascii_alpha_def)
  show ?thesis using startup_port [of 8080 70000 "''''" "''abc''"] d a by simp
qed

end
