(* ===== verification/Spec2Isabelle.thy ===== *)
theory Spec2Isabelle
  imports Response Startup
begin

text \<open>
  \<^bold>\<open>Verification development of the movies REST service\<close>
  (src/app.js, src/schemas/movies.js).

  \<^bold>\<open>The program.\<close> src/app.js is an Express application over one process-wide array
  \<open>movies\<close>, seeded from movies.json. Each request passes \<open>express.json()\<close>, then
  the \<open>cors\<close> middleware with an origin callback, then the first matching route:
  \<open>GET /\<close>, \<open>GET /movies\<close> (optional \<open>?genre=\<close> filter, case-insensitive),
  \<open>GET /movies/:id\<close>, \<open>POST /movies/\<close> (\<open>validateMovie\<close>, a fresh
  \<open>crypto.randomUUID()\<close>, push), \<open>PATCH /movies/:id\<close> (\<open>validatePartial\<close>,
  \<open>findIndex\<close>, merge in place) and \<open>DELETE /movies/:id\<close> (\<open>findIndex\<close>,
  \<open>splice\<close>). src/schemas/movies.js is the zod schema \<open>movieSchema\<close> and the two
  validators built on it.

  \<^bold>\<open>Theories, in import order.\<close>
  \<^item> Prelude: the named collections \<open>handler_simps\<close> and \<open>schema_simps\<close>; the
    recursive first match \<open>find_idx\<close>, \<open>splice_one\<close> (\<open>splice(i, 1)\<close>),
    ASCII \<open>toLowerCase\<close> (\<open>js_lower\<close>) and the issue-collecting combinator \<open>vap\<close>,
    with their list and map lemmas.
  \<^item> Json: JSON values (numbers as rationals, objects as member lists read by their
    last duplicate, as \<open>JSON.parse\<close> does) and the type names zod reports.
  \<^item> Url: platform code, modelled from its specification: \<open>whatwg_url_ok\<close>, acceptance
    by the WHATWG URL constructor, which zod's \<open>.url()\<close> calls, and
    \<open>decode_uri_component\<close>, ECMAScript's \<open>decodeURIComponent\<close>, which Express applies
    to route parameters (URIError as \<open>None\<close>).
  \<^item> Schema: src/schemas/movies.js. One parser per field (\<open>parse_title\<close> \<dots>
    \<open>parse_poster\<close>) from the property's value to the value or zod's issues, each issue
    with the code, path and message zod gives it (the three places that raise
    \<open>invalid_type\<close> are three constructors, as they print differently);
    \<open>movie_schema\<close> (the object), \<open>validateMovie\<close> and \<open>validatePartial\<close>
    (\<open>.partial()\<close> = \<open>optional\<close> around each field). Lemmas: exactly which bodies are
    accepted and to what (C8), every failing field reported (C9), partial mode sound and
    without defaults (C28, C29), the issues of the spec's example (C30), full validity
    implying partial validity (C31).
  \<^item> Scan: \<open>Array.prototype.findIndex\<close>, a platform built-in, as the ECMAScript loop over
    \<open>while_option\<close>; it stops, at the first match, and agrees with \<open>find_idx\<close>, on
    which the handler lemmas are stated.
  \<^item> Movies: the handlers of src/app.js as functions from the array to the response and
    the new array (\<open>handle_list\<close>, \<open>handle_get\<close>, \<open>handle_create\<close>,
    \<open>handle_patch\<close>, \<open>handle_delete\<close>, \<open>handle_root\<close>); the genre callback that
    throws a \<open>TypeError\<close> on a non-string query is \<open>genre_some\<close>. Lemmas: the
    functional behaviour of each handler on each branch (C4--C7, C10, C12, C13, C16,
    C20--C22, C32, C33), the store invariant \<open>store_wf\<close> (unique ids, records valid)
    preserved by each handler, and the abstraction \<open>store_map\<close> to a map from id to movie.
  \<^item> Server: the pipeline \<open>serve\<close> (\<open>parse_body\<close>, \<open>cors_origin\<close>, preflight,
    \<open>decode_path\<close> for the \<open>:id\<close> parameter, \<open>dispatch\<close> on method and path
    segments, HEAD served by the GET routes (\<open>route_method\<close>), \<open>query_param\<close> for
    \<open>req.query\<close>, Express's own 400/404/500 answers as \<open>Express_error\<close>); the running
    service as the step relation \<open>server_step\<close>, \<open>reachable\<close> stores from a seed, and
    \<open>run\<close> over a request sequence. The abstract specification is the map from id to
    movie: each request asks for one operation \<open>request_op\<close> (a value of \<open>abs_op\<close>)
    that \<open>apply_op\<close> performs on the map. Lemmas: the invariant over every reachable
    store (C1), the functional refinement \<open>store_map (serve ...) = apply_op ...
    (store_map ...)\<close> (C2), no change by a failing request (C3), the end-to-end 500 of a
    repeated genre parameter (C11), size bounds (C17), create, read back and delete
    through the pipeline (C18), CORS and read-only requests (C23--C25), the 400 of an
    undecodable id (C26) and escaped ids (C27).
  \<^item> Response: the JSON \<open>res.json\<close> sends (\<open>body_json\<close>, \<open>movie_json\<close>,
    \<open>issue_json\<close>, the members of an issue in the order zod creates them) and the
    headers of every response (\<open>response_headers\<close>: Express's \<open>x-powered-by\<close> setting,
    turned off by line 30 in \<open>app_config\<close>, the \<open>cors\<close> headers, content types);
    every handled status comes with the body of the interface table (C14), what a
    browser sees of the CORS policy (C15), and a stored movie's JSON validates again to
    its data (C19).
  \<^item> Startup: lines 108--113, \<open>process.env.PORT ?? 3333\<close> and \<open>app.listen(PORT)\<close>:
    \<open>startup\<close> from the value of the variable to the port or pipe listened on and the
    logged line, or the \<open>ERR_SOCKET_BAD_PORT\<close> that \<open>app.listen\<close> throws. Node's
    \<open>net\<close> code behind \<open>app.listen\<close> (\<open>isPipeName\<close>, \<open>validatePort\<close>, the choice
    between pipe and port) is modelled from its source and specification, reading its
    argument with \<open>Number()\<close> as ECMAScript's \<open>StringToNumber\<close> (\<open>str_to_number\<close>);
    the digits \<open>nat_digits\<close> prints read back as their value. C34 gives start-up on an
    unset, numeric, too large, blank and non-numeric \<open>PORT\<close>.

  \<^bold>\<open>Correspondence of state.\<close> The array \<open>movies\<close> is a \<open>store\<close> (\<open>movie list\<close>);
  a movie is the record \<open>movie_data\<close> (\<open>result.data\<close>) extended with \<open>movie_id\<close>, so
  the merge of PATCH (\<open>patch_movie\<close>, over \<open>'a movie_data_scheme\<close>) cannot touch the id.
  Every handler returns the response with the new array; the list handler's thrown error is
  the \<open>Inl\<close> of a sum, turned by \<open>dispatch\<close> into Express's 500.

  \<^bold>\<open>Choices and bounds.\<close> \<open>crypto.randomUUID()\<close> is an argument of \<open>serve\<close>;
  \<open>server_step\<close> draws any identifier not in use, which is what the code relies on
  without checking. URL validity is
  a parameter \<open>url_ok\<close> of the schema, instantiated by \<open>whatwg_url_ok\<close> in the
  examples. Numbers are exact rationals: JSON numbers in the bodies are finite decimals,
  and the schema's checks (integer, bounds) read the same on them as on IEEE doubles.
  Strings are byte strings: a JavaScript string is read as its UTF-8 encoding, which is
  what \<open>decodeURIComponent\<close> produces and what the ASCII identifiers and genre names are.
  No loop needs fuel: \<open>findIndex\<close> is a \<open>while_option\<close> proved to stop, all other
  iteration is structural recursion over lists.

  \<^bold>\<open>Not modelled.\<close> Printing JSON values to text (\<open>JSON.stringify\<close> of bodies
  and of the zod issues, whose \<open>JSON.parse\<close> in the 400 handler is taken as the
  identity) and the HTML text of Express's error pages: the model keeps the JSON value
  and the status. Header details beyond the CORS, powered-by and content-type headers
  (\<open>ETag\<close>, \<open>Content-Length\<close> of bodies, the reflected
  \<open>Access-Control-Request-Headers\<close> of a preflight). The contents of movies.json:
  not in the repository, so the seed is any store (the invariant assumes it valid, as the
  spec trusts it), its records are typed by the schema, and \<open>movie_json\<close> prints every
  movie with the id first and the schema's key order, which a seed record read from the
  file would keep only if the file has that order. The Express version: no package
  manifest is in src/; \<open>parse_body\<close> follows Express 4 (its body parser leaves
  \<open>{}\<close> when there is no JSON body; Express 5 leaves \<open>req.body\<close> undefined, and the
  handlers would then answer 400 with zod's object type issue). Bracketed query keys (\<open>?genre[x]=a\<close>), whose parsing depends on the
  Express version (qs in Express 4, none in Express 5), for which the handler lemmas over
  \<open>QDict\<close> still hold. IEEE rounding in \<open>Number(PORT)\<close> for over-long literals, and white space
  other than ASCII in its trimming; the errors \<open>app.listen\<close> reports asynchronously
  (\<open>EADDRINUSE\<close>, \<open>EACCES\<close>), which depend on the host;
  host syntax of URLs beyond forbidden code points; Unicode case mapping beyond ASCII
  (genre names are ASCII). Nothing else of src/ is left out: the remaining lines are
  \<open>require\<close>s, \<open>module.exports\<close> and blank lines.
\<close>

end
